theory Spec2Isabelle
  imports Main "HOL-Library.Char_ord" "HOL-Library.List_Lexorder"
begin

section \<open>The c4 compiler's IR emitter and type checker\<close>

text \<open>
  A shallow embedding of \<^verbatim>\<open>compiler.go\<close> and \<^verbatim>\<open>typecheck.go\<close>. Go strings are byte
  strings, modelled as \<^typ>\<open>string\<close>. The emitter is a mutable object; every method
  becomes a function that takes the compiler state and returns the new one. A Go
  \<^verbatim>\<open>panic\<close> becomes the left summand of a result, paired with the state the
  panicking call left behind.
\<close>

subsection \<open>Formatting\<close>

abbreviation NL :: string where "NL \<equiv> [CHR 0x0A]"
abbreviation TAB :: string where "TAB \<equiv> [CHR 0x09]"
abbreviation DQUOTE :: string where "DQUOTE \<equiv> [CHR 0x22]"

definition digit :: "nat \<Rightarrow> char" where
  "digit d = ''0123456789'' ! d"

text \<open>\<^verbatim>\<open>%d\<close> of a non-negative integer.\<close>

function Utoa :: "nat \<Rightarrow> string" where
  "Utoa n = (if n < 10 then [digit n] else Utoa (n div 10) @ [digit (n mod 10)])"
  by pat_completeness auto
termination
  by (relation "measure id") auto

declare Utoa.simps [simp del]

text \<open>\<^verbatim>\<open>strconv.Itoa\<close>, and \<^verbatim>\<open>%d\<close> of a signed integer.\<close>

definition Itoa :: "int \<Rightarrow> string" where
  "Itoa i = (if i < 0 then CHR ''-'' # Utoa (nat (- i)) else Utoa (nat i))"

text \<open>
  \<^verbatim>\<open>%c\<close> of a byte: the Unicode code point of that value in UTF-8, one byte below
  128 and two bytes from 128 on.
\<close>

definition fmt_c :: "char \<Rightarrow> string" where
  "fmt_c ch = (let n = (of_char ch :: nat) in
     if n < 128 then [ch]
     else [char_of (192 + n div 64), char_of (128 + n mod 64)])"

subsection \<open>Operands\<close>

text \<open>
  \<^verbatim>\<open>Block\<close> and \<^verbatim>\<open>Temporary\<close> are Go \<^verbatim>\<open>uint\<close>s, 64 bits wide on the 64-bit
  platforms; they are natural numbers here and the increment writes the wrap-around out.
\<close>

type_synonym Block = nat
type_synonym Temporary = nat
type_synonym Global = string
type_synonym IRInteger = string
type_synonym IRString = string

definition uint_incr :: "nat \<Rightarrow> nat" where
  "uint_incr n = (n + 1) mod 2 ^ 64"

text \<open>
  The interface \<^verbatim>\<open>Operand\<close> with its five implementations; \<open>OCall\<close> is the struct
  \<^verbatim>\<open>CallOperand{Var, Func, Args}\<close> and \<open>TypedOperand\<close> is \<^verbatim>\<open>TypedOperand{Ty, Op}\<close>.
\<close>

datatype Operand =
    OBlock Block
  | OTemporary Temporary
  | OGlobal Global
  | OIRInteger IRInteger
  | OCall bool Operand "TypedOperand list"
and TypedOperand = TypedOperand string Operand

definition Block_Operand :: "Block \<Rightarrow> string" where
  "Block_Operand b = ''@b'' @ Utoa b"

definition Temporary_IsZero :: "Temporary \<Rightarrow> bool" where
  "Temporary_IsZero t = (t = 0)"

definition Temporary_Operand :: "Temporary \<Rightarrow> string" where
  "Temporary_Operand t = ''%t'' @ Utoa t"

definition Global_Operand :: "Global \<Rightarrow> string" where
  "Global_Operand g = ''$'' @ g"

definition IRInt :: "int \<Rightarrow> IRInteger" where
  "IRInt i = Itoa i"

definition IRInteger_Operand :: "IRInteger \<Rightarrow> string" where
  "IRInteger_Operand i = i"

text \<open>
  \<^verbatim>\<open>CallOperand.Operand\<close>: the loop over \<^verbatim>\<open>c.Args\<close> is \<open>CallOperand_args\<close>, with the
  loop index \<open>i\<close>, and its body is \<open>CallOperand_arg\<close>.
\<close>

fun Operand_Operand :: "Operand \<Rightarrow> string"
  and CallOperand_args :: "nat \<Rightarrow> TypedOperand list \<Rightarrow> string"
  and CallOperand_arg :: "TypedOperand \<Rightarrow> string"
where
  "Operand_Operand (OBlock b) = Block_Operand b"
| "Operand_Operand (OTemporary t) = Temporary_Operand t"
| "Operand_Operand (OGlobal g) = Global_Operand g"
| "Operand_Operand (OIRInteger i) = IRInteger_Operand i"
| "Operand_Operand (OCall var func args) =
     Operand_Operand func @ ''('' @ CallOperand_args 0 args
       @ (if var then '', ...'' else '''') @ '')''"
| "CallOperand_args i [] = ''''"
| "CallOperand_args i (arg # args) =
     (if i > 0 then '', '' else '''') @ CallOperand_arg arg @ CallOperand_args (Suc i) args"
| "CallOperand_arg (TypedOperand ty op) =
     (if ty = ''h'' \<or> ty = ''b'' then ''w'' else ty) @ '' '' @ Operand_Operand op"

text \<open>\<^verbatim>\<open>IRString.String\<close>: the loop over the bytes of the string and a final NUL.\<close>

fun IRString_loop :: "nat \<Rightarrow> bool \<Rightarrow> char list \<Rightarrow> string" where
  "IRString_loop i inStr [] = ''''"
| "IRString_loop i inStr (ch # rest) =
     (if CHR '' '' \<le> ch \<and> ch \<le> CHR ''~'' then
        (if \<not> inStr then (if i > 0 then '','' else '''') @ '' b '' @ DQUOTE else '''')
          @ [ch] @ IRString_loop (Suc i) True rest
      else
        (if inStr then DQUOTE else '''') @ (if i > 0 then '','' else '''')
          @ '' b '' @ Utoa (of_char ch) @ IRString_loop (Suc i) False rest)"

definition IRString_String :: "IRString \<Rightarrow> string" where
  "IRString_String s = ''{'' @ IRString_loop 0 False (s @ [CHR 0x00]) @ '' }''"

subsection \<open>Types of the source language\<close>

text \<open>
  A namespace is a name prefix and two Go maps. A Go map is a reference: the copy of a
  \<^verbatim>\<open>Namespace\<close> on the namespace stack and the copy bound in its parent share one
  \<^verbatim>\<open>Vars\<close> map. So \<open>Vars\<close> is an address into the compiler's store of maps. The
  \<^verbatim>\<open>Typs\<close> map (type names) is left out, with the methods \<^verbatim>\<open>AliasType\<close> and
  \<^verbatim>\<open>Type\<close> that are its only users.
\<close>

record Namespace =
  Name :: string
  Vars :: nat

text \<open>
  Modelled from the spec: the declarations of the types of the source language, which
  are in a file that is not among the sources. \<^verbatim>\<open>compiler.go\<close> and \<^verbatim>\<open>typecheck.go\<close>
  name the eleven base types, \<^verbatim>\<open>PointerType{To}\<close>, \<^verbatim>\<open>FuncType{params, Ret}\<close>,
  \<^verbatim>\<open>IntLitType{}\<close>, \<^verbatim>\<open>FloatLitType{}\<close> and \<^verbatim>\<open>Namespace\<close> as values of the interface
  \<^verbatim>\<open>Type\<close>; arrays, structs, unions and named types (a slot identity) are the spec's.
  A \<^verbatim>\<open>nil\<close> interface value (the absent pointee of the generic pointer, the absent
  return type of a function) is \<open>None\<close>.
\<close>

datatype Type =
    TypeI64 | TypeI32 | TypeI16 | TypeI8
  | TypeU64 | TypeU32 | TypeU16 | TypeU8
  | TypeF64 | TypeF32
  | TypeBool
  | PointerType "Type option"
  | FuncType "Type list" "Type option"
  | ArrayType Type nat
  | StructType "(string \<times> Type) list"
  | UnionType "(string \<times> Type) list"
  | NamedType nat
  | IntLitType
  | FloatLitType
  | NamespaceType Namespace

record TypeMetrics =
  Size :: int
  Align :: int

subsection \<open>The compiler state\<close>

datatype panic =
    PanicString string
  | PanicRuntime string

record CompileResult =
  typeW :: string
  codeW :: string

record Loop =
  Start :: Block
  End :: Block

record Variable =
  Loc :: Operand
  Ty :: Type

datatype CompositeEntry = CompositeEntry (EntryTy: string) (EntryN: int)

type_synonym CompositeLayout = "CompositeEntry list"

datatype IRParam = IRParam (ParamName: string) (ParamTy: Type)

text \<open>
  The struct \<^verbatim>\<open>Compiler\<close>. The field \<^verbatim>\<open>comp\<close> is \<open>comps\<close> here. \<open>store\<close> holds
  the \<^verbatim>\<open>Vars\<close> maps of the namespaces by address and \<open>store_next\<close> is the first
  unused address.
\<close>

record Compiler =
  r :: CompileResult
  blk :: Block
  temp :: Temporary
  ret :: bool
  loop :: "Loop list"
  ns :: "Namespace list"
  comps :: "CompositeLayout list"
  vars :: "string \<rightharpoonup> Variable"
  strs :: "IRString list"
  strM :: "string \<rightharpoonup> nat"
  data :: "Variable list"
  store :: "nat \<Rightarrow> (string \<rightharpoonup> Type)"
  store_next :: nat

type_synonym 'a result = "(panic + 'a) \<times> Compiler"

text \<open>
  The methods of the types and the functions on types that \<^verbatim>\<open>compiler.go\<close> and
  \<^verbatim>\<open>typecheck.go\<close> call and that are declared in files not among the sources. They are
  parameters of the model. \<open>isConcreteType\<close> and \<open>isNumericType\<close> say whether a type
  implements the interface \<^verbatim>\<open>ConcreteType\<close>, \<^verbatim>\<open>NumericType\<close> (the type assertions).
  \<^verbatim>\<open>IRTypeName\<close> and \<^verbatim>\<open>GenZero\<close> receive the compiler and may change it.
\<close>

record TypeOps =
  Compatible :: "Type option \<Rightarrow> Type option \<Rightarrow> bool"
  IsConcrete :: "Type \<Rightarrow> bool"
  Concrete :: "Type \<Rightarrow> Type"
  isConcreteType :: "Type \<Rightarrow> bool"
  isNumericType :: "Type \<Rightarrow> bool"
  Metrics :: "Type \<Rightarrow> TypeMetrics"
  IRTypeName :: "Type \<Rightarrow> Compiler \<Rightarrow> string \<times> Compiler"
  IRBaseTypeName :: "Type \<Rightarrow> char"
  GenZero :: "Type \<Rightarrow> Operand \<Rightarrow> Compiler \<Rightarrow> unit result"

definition NewCompiler :: Compiler where
  "NewCompiler = \<lparr>
     r = \<lparr>typeW = '''', codeW = ''''\<rparr>,
     blk = 0, temp = 0, ret = False,
     loop = [],
     ns = [\<lparr>Name = '''', Vars = 0\<rparr>],
     comps = [],
     vars = Map.empty,
     strs = [],
     strM = Map.empty,
     data = [],
     store = (\<lambda>_. Map.empty),
     store_next = 1\<rparr>"

definition CompileResult_String :: "CompileResult \<Rightarrow> string" where
  "CompileResult_String res = typeW res @ codeW res"

subsection \<open>Emitting instructions\<close>

text \<open>\<^verbatim>\<open>Writef\<close>, given the formatted text.\<close>

definition Writef :: "string \<Rightarrow> Compiler \<Rightarrow> Compiler" where
  "Writef s c = c\<lparr>r := (r c)\<lparr>codeW := codeW (r c) @ s\<rparr>\<rparr>"

fun Insn_operands :: "nat \<Rightarrow> Operand list \<Rightarrow> string" where
  "Insn_operands i [] = ''''"
| "Insn_operands i (operand # operands) =
     (if i > 0 then '','' else '''') @ '' '' @ Operand_Operand operand
       @ Insn_operands (Suc i) operands"

definition Insn_line :: "Temporary \<Rightarrow> char \<Rightarrow> string \<Rightarrow> Operand list \<Rightarrow> string" where
  "Insn_line retVar retType opcode operands =
     (let b = opcode @ Insn_operands 0 operands in
      if Temporary_IsZero retVar then TAB @ b @ NL
      else TAB @ Temporary_Operand retVar @ '' ='' @ fmt_c retType @ '' '' @ b @ NL)"

definition Insn :: "Temporary \<Rightarrow> char \<Rightarrow> string \<Rightarrow> Operand list \<Rightarrow> Compiler \<Rightarrow> Compiler" where
  "Insn retVar retType opcode operands c =
     (if ret c then c
      else (Writef (Insn_line retVar retType opcode operands) c)\<lparr>ret := (opcode = ''ret'')\<rparr>)"

definition StartBlock :: "Block \<Rightarrow> Compiler \<Rightarrow> Compiler" where
  "StartBlock block c = (Writef (Block_Operand block @ NL) c)\<lparr>ret := False\<rparr>"

definition Block :: "Compiler \<Rightarrow> Block \<times> Compiler" where
  "Block c = (let b = uint_incr (blk c) in (b, c\<lparr>blk := b\<rparr>))"

definition Temporary :: "Compiler \<Rightarrow> Temporary \<times> Compiler" where
  "Temporary c = (let t = uint_incr (temp c) in (t, c\<lparr>temp := t\<rparr>))"

definition EndFunction :: "Compiler \<Rightarrow> Compiler" where
  "EndFunction c =
     (let c1 = (if \<not> ret c then Insn 0 (CHR 0x00) ''ret'' [] c else c);
          c2 = Writef (''}'' @ NL) c1
      in c2\<lparr>temp := 0, blk := 0, ret := False, vars := Map.empty\<rparr>)"

subsection \<open>Namespaces\<close>

text \<open>
  \<^verbatim>\<open>c.ns[len(c.ns)-1]\<close>: indexing an empty slice is a run-time panic, whose value is a
  \<^verbatim>\<open>runtime.Error\<close> and not a string.
\<close>

definition NS :: "Compiler \<Rightarrow> panic + Namespace" where
  "NS c = (if ns c = [] then Inl (PanicRuntime ''index out of range'')
           else Inr (last (ns c)))"

definition StartNamespace :: "string \<Rightarrow> Compiler \<Rightarrow> unit result" where
  "StartNamespace name c =
     (case NS c of
        Inl p \<Rightarrow> (Inl p, c)
      | Inr cur \<Rightarrow>
          let n = \<lparr>Name = Name cur @ name @ ''.'', Vars = store_next c\<rparr>;
              c1 = c\<lparr>store := (store c)(store_next c := Map.empty),
                     store_next := Suc (store_next c)\<rparr>;
              c2 = c1\<lparr>store := (store c1)(Vars cur := (store c1 (Vars cur))(name \<mapsto> NamespaceType n))\<rparr>
          in (Inr (), c2\<lparr>ns := ns c2 @ [n]\<rparr>))"

definition EndNamespace :: "Compiler \<Rightarrow> unit result" where
  "EndNamespace c =
     (if ns c = [] then (Inl (PanicRuntime ''slice bounds out of range''), c)
      else let c1 = c\<lparr>ns := butlast (ns c)\<rparr> in
        if ns c1 = [] then (Inl (PanicString ''[compiler bug] End of global namespace''), c1)
        else (Inr (), c1))"

subsection \<open>The pool of composite layouts\<close>

definition strings_Compare :: "string \<Rightarrow> string \<Rightarrow> int" where
  "strings_Compare a b = (if a = b then 0 else if a < b then - 1 else 1)"

fun Ident_entries :: "CompositeEntry list \<Rightarrow> string" where
  "Ident_entries [] = ''''"
| "Ident_entries (entry # l) =
     (if length (EntryTy entry) > 1 then ''X'' @ EntryTy entry @ ''Y'' else EntryTy entry)
       @ (if EntryN entry > 1 then Itoa (EntryN entry) else '''')
       @ Ident_entries l"

definition Ident :: "CompositeLayout \<Rightarrow> string" where
  "Ident l = '':'' @ Ident_entries l"

fun GenType_entries :: "nat \<Rightarrow> CompositeEntry list \<Rightarrow> string" where
  "GenType_entries i [] = ''''"
| "GenType_entries i (entry # l) =
     (if i > 0 then '', '' else '''') @ EntryTy entry
       @ (if EntryN entry > 1 then '' '' @ Itoa (EntryN entry) else '''')
       @ GenType_entries (Suc i) l"

definition GenType_text :: "CompositeLayout \<Rightarrow> string" where
  "GenType_text l = ''type '' @ Ident l @ '' = { '' @ GenType_entries 0 l @ '' }'' @ NL"

definition GenType :: "CompositeLayout \<Rightarrow> Compiler \<Rightarrow> Compiler" where
  "GenType l c = c\<lparr>r := (r c)\<lparr>typeW := typeW (r c) @ GenType_text l\<rparr>\<rparr>"

text \<open>
  The loop of \<^verbatim>\<open>CompositeType\<close> over \<^verbatim>\<open>c.comp\<close>, as a function of the entries from the
  loop index on: the entries before the index stay where they are. Case 0 returns with
  the pool unchanged, case 1 inserts the layout before the entry at the index, and the
  end of the loop appends.
\<close>

fun CompositeType_loop :: "string \<Rightarrow> CompositeLayout \<Rightarrow> CompositeLayout list \<Rightarrow> CompositeLayout list" where
  "CompositeType_loop ident layout [] = [layout]"
| "CompositeType_loop ident layout (layout' # rest) =
     (let cmp = strings_Compare (Ident layout') ident in
      if cmp = 0 then layout' # rest
      else if cmp = 1 then layout # layout' # rest
      else layout' # CompositeType_loop ident layout rest)"

definition CompositeType :: "CompositeLayout \<Rightarrow> Compiler \<Rightarrow> string \<times> Compiler" where
  "CompositeType layout c =
     (let ident = Ident layout in
      (ident, c\<lparr>comps := CompositeType_loop ident layout (comps c)\<rparr>))"

subsection \<open>Variables\<close>

definition DeclareGlobal :: "bool \<Rightarrow> string \<Rightarrow> Type \<Rightarrow> Compiler \<Rightarrow> unit result" where
  "DeclareGlobal extern name ty c =
     (case NS c of
        Inl p \<Rightarrow> (Inl p, c)
      | Inr cur \<Rightarrow>
          if store c (Vars cur) name \<noteq> None then (Inl (PanicString ''Variable already exists''), c)
          else
            let c1 = c\<lparr>store := (store c)(Vars cur := (store c (Vars cur))(name \<mapsto> ty))\<rparr> in
            if \<not> extern
            then (Inr (), c1\<lparr>data := data c1 @ [\<lparr>Loc = OGlobal (Name cur @ name), Ty = ty\<rparr>]\<rparr>)
            else (Inr (), c1))"

definition allocLocal :: "TypeOps \<Rightarrow> Temporary \<Rightarrow> Type \<Rightarrow> Compiler \<Rightarrow> unit result" where
  "allocLocal T loc ty c =
     (let m = Metrics T ty in
      if Align m \<le> 4 then (Inr (), Insn loc (CHR ''l'') ''alloc4'' [OIRInteger (IRInt (Size m))] c)
      else if Align m \<le> 8 then (Inr (), Insn loc (CHR ''l'') ''alloc8'' [OIRInteger (IRInt (Size m))] c)
      else if Align m \<le> 16 then (Inr (), Insn loc (CHR ''l'') ''alloc16'' [OIRInteger (IRInt (Size m))] c)
      else (Inl (PanicString ''Invalid alignment''), c))"

definition DeclareLocal :: "TypeOps \<Rightarrow> string \<Rightarrow> Type \<Rightarrow> Compiler \<Rightarrow> unit result" where
  "DeclareLocal T name ty c =
     (if vars c name \<noteq> None then (Inl (PanicString ''Variable already exists''), c)
      else
        let (loc, c1) = Temporary c;
            c2 = c1\<lparr>vars := (vars c1)(name \<mapsto> \<lparr>Loc = OTemporary loc, Ty = ty\<rparr>)\<rparr>
        in case allocLocal T loc ty c2 of
             (Inl p, c3) \<Rightarrow> (Inl p, c3)
           | (Inr _, c3) \<Rightarrow> GenZero T ty (OTemporary loc) c3)"

text \<open>
  \<^verbatim>\<open>nsVar\<close> returns a pair \<^verbatim>\<open>(Variable, bool)\<close>, the variable being the zero value
  where the flag is \<^verbatim>\<open>false\<close>: an option. Indexing \<^verbatim>\<open>c.ns\<close> out of range is a
  run-time panic.
\<close>

definition nsVar :: "int \<Rightarrow> string \<Rightarrow> Compiler \<Rightarrow> panic + Variable option" where
  "nsVar i name c =
     (if i < 0 \<or> int (length (ns c)) \<le> i then Inl (PanicRuntime ''index out of range'')
      else let n = ns c ! nat i in
        case store c (Vars n) name of
          Some ty \<Rightarrow> Inr (Some \<lparr>Loc = OGlobal (Name n @ name), Ty = ty\<rparr>)
        | None \<Rightarrow> Inr None)"

text \<open>\<^verbatim>\<open>Variable\<close> reads the compiler and changes nothing.\<close>

definition Variable :: "string \<Rightarrow> Compiler \<Rightarrow> panic + Variable" where
  "Variable name c =
     (case vars c name of
        Some v \<Rightarrow> Inr v
      | None \<Rightarrow>
         (case nsVar (int (length (ns c)) - 1) name c of
            Inl p \<Rightarrow> Inl p
          | Inr (Some v) \<Rightarrow> Inr v
          | Inr None \<Rightarrow>
             (case nsVar 0 name c of
                Inl p \<Rightarrow> Inl p
              | Inr (Some v) \<Rightarrow> Inr v
              | Inr None \<Rightarrow> Inl (PanicString (''Undefined variable: '' @ name)))))"

subsection \<open>The string pool\<close>

definition String :: "string \<Rightarrow> Compiler \<Rightarrow> Global \<times> Compiler" where
  "String str c =
     (case strM c str of
        Some i \<Rightarrow> (''str'' @ Utoa i, c)
      | None \<Rightarrow>
          let i = length (strs c) in
          (''str'' @ Utoa i, c\<lparr>strM := (strM c)(str \<mapsto> i), strs := strs c @ [str]\<rparr>))"

subsection \<open>Functions\<close>

text \<open>
  The first loop of \<^verbatim>\<open>StartFunction\<close>, over the parameters, with the loop index, the
  text built so far and the temporaries given so far.
\<close>

fun StartFunction_params ::
  "TypeOps \<Rightarrow> nat \<Rightarrow> IRParam list \<Rightarrow> string \<Rightarrow> Temporary list \<Rightarrow> Compiler
     \<Rightarrow> string \<times> Temporary list \<times> Compiler" where
  "StartFunction_params T i [] pbuild ptemps c = (pbuild, ptemps, c)"
| "StartFunction_params T i (param # params) pbuild ptemps c =
     (let pbuild1 = (if i > 0 then pbuild @ '', '' else pbuild);
          (ptype, c1) = IRTypeName T (ParamTy param) c;
          ptype1 = (if ptype = ''b'' \<or> ptype = ''h'' then ''w'' else ptype);
          (t, c2) = Temporary c1
      in StartFunction_params T (Suc i) params
           (pbuild1 @ ptype1 @ '' '' @ Temporary_Operand t) (ptemps @ [t]) c2)"

text \<open>The second loop, over the parameters and their temporaries \<^verbatim>\<open>ptemps[i]\<close>.\<close>

fun StartFunction_locals :: "TypeOps \<Rightarrow> (IRParam \<times> Temporary) list \<Rightarrow> Compiler \<Rightarrow> unit result" where
  "StartFunction_locals T [] c = (Inr (), c)"
| "StartFunction_locals T ((param, ptemp) # rest) c =
     (if IRBaseTypeName T (ParamTy param) \<noteq> CHR 0x00 then
        let (loc, c1) = Temporary c in
        case allocLocal T loc (ParamTy param) c1 of
          (Inl p, c2) \<Rightarrow> (Inl p, c2)
        | (Inr _, c2) \<Rightarrow>
            let (tyname, c3) = IRTypeName T (ParamTy param) c2;
                c4 = Insn 0 (CHR 0x00) (''store'' @ tyname) [OTemporary ptemp, OTemporary loc] c3;
                c5 = c4\<lparr>vars := (vars c4)(ParamName param \<mapsto> \<lparr>Loc = OTemporary loc, Ty = ParamTy param\<rparr>)\<rparr>
            in StartFunction_locals T rest c5
      else
        let c1 = c\<lparr>vars := (vars c)(ParamName param \<mapsto> \<lparr>Loc = OTemporary ptemp, Ty = ParamTy param\<rparr>)\<rparr>
        in StartFunction_locals T rest c1)"

definition StartFunction_header :: "bool \<Rightarrow> string \<Rightarrow> string \<Rightarrow> string \<Rightarrow> string" where
  "StartFunction_header export retType name pbuild =
     (let prefix = (if export then ''export '' else '''');
          retType1 = (if retType = ''b'' \<or> retType = ''h'' then ''w'' else retType);
          retType2 = (if retType1 \<noteq> '''' then retType1 @ '' '' else retType1)
      in prefix @ ''function '' @ retType2 @ ''$'' @ name @ ''('' @ pbuild @ '') {'' @ NL
           @ ''@start'' @ NL)"

definition StartFunction ::
  "TypeOps \<Rightarrow> bool \<Rightarrow> string \<Rightarrow> IRParam list \<Rightarrow> string \<Rightarrow> Compiler \<Rightarrow> unit result" where
  "StartFunction T export name params retType c =
     (let (pbuild, ptemps, c1) = StartFunction_params T 0 params '''' [] c in
      case NS c1 of
        Inl p \<Rightarrow> (Inl p, c1)
      | Inr cur \<Rightarrow>
          let c2 = Writef (StartFunction_header export retType (Name cur @ name) pbuild) c1
          in StartFunction_locals T (zip params ptemps) c2)"

subsection \<open>Finishing\<close>

text \<open>
  \<^verbatim>\<open>%s\<close> of an \<^verbatim>\<open>Operand\<close>: \<^verbatim>\<open>Block\<close>, \<^verbatim>\<open>Temporary\<close> and \<^verbatim>\<open>Global\<close> have a
  \<^verbatim>\<open>String\<close> method, which is \<^verbatim>\<open>Operand\<close>, and an \<^verbatim>\<open>IRInteger\<close> is a string. The
  struct \<^verbatim>\<open>CallOperand\<close> has no \<^verbatim>\<open>String\<close> method and Go prints its fields; that text is
  not modelled, no method stores a \<^verbatim>\<open>CallOperand\<close> as the place of a variable.
\<close>

fun fmt_s_Operand :: "Operand \<Rightarrow> string" where
  "fmt_s_Operand (OBlock b) = Block_Operand b"
| "fmt_s_Operand (OTemporary t) = Temporary_Operand t"
| "fmt_s_Operand (OGlobal g) = Global_Operand g"
| "fmt_s_Operand (OIRInteger i) = i"
| "fmt_s_Operand (OCall var func args) = ''''"

definition Finish_str_line :: "nat \<Rightarrow> IRString \<Rightarrow> string" where
  "Finish_str_line i str = ''data $str'' @ Utoa i @ '' = '' @ IRString_String str @ NL"

fun Finish_strs :: "nat \<Rightarrow> IRString list \<Rightarrow> Compiler \<Rightarrow> Compiler" where
  "Finish_strs i [] c = c"
| "Finish_strs i (str # rest) c = Finish_strs (Suc i) rest (Writef (Finish_str_line i str) c)"

definition Finish_data_line :: "TypeOps \<Rightarrow> Variable \<Rightarrow> string" where
  "Finish_data_line T d =
     (let m = Metrics T (Concrete T (Ty d)) in
      ''data '' @ fmt_s_Operand (Loc d) @ '' = align '' @ Itoa (Align m)
        @ '' { z '' @ Itoa (Size m) @ '' }'' @ NL)"

text \<open>\<^verbatim>\<open>Finish\<close>: three loops, each a sequence of writes.\<close>

definition Finish :: "TypeOps \<Rightarrow> Compiler \<Rightarrow> Compiler" where
  "Finish T c =
     (let c1 = fold GenType (comps c) c;
          c2 = Finish_strs 0 (strs c1) c1;
          c3 = fold (\<lambda>d. Writef (Finish_data_line T d)) (data c2) c2
      in c3)"

subsection \<open>Compiling a program\<close>

text \<open>
  \<^verbatim>\<open>prog.GenProgram(c)\<close>, the lowering of a parsed program, is in a file that is not
  among the sources. A program is taken as what its lowering does: it changes the
  compiler through the methods above, and it returns or panics.
\<close>

type_synonym Program = "Compiler \<Rightarrow> unit result"

definition compile :: "TypeOps \<Rightarrow> Program \<Rightarrow> Compiler \<Rightarrow> unit result" where
  "compile T prog c =
     (case prog c of
        (Inl p, c1) \<Rightarrow> (Inl p, c1)
      | (Inr _, c1) \<Rightarrow> (Inr (), Finish T c1))"

text \<open>
  What a call of \<^verbatim>\<open>Compile\<close> does: it returns the pair \<^verbatim>\<open>(r, err)\<close>, either of which
  may be \<^verbatim>\<open>nil\<close>, or it panics again with the value it recovered.
\<close>

datatype CompileOutcome =
    Returns "CompileResult option" "string option"
  | Panics panic

definition Compile :: "TypeOps \<Rightarrow> Program \<Rightarrow> Compiler \<Rightarrow> CompileOutcome \<times> Compiler" where
  "Compile T prog c =
     (case compile T prog c of
        (Inl (PanicString e), c1) \<Rightarrow> (Returns None (Some e), c1)
      | (Inl (PanicRuntime e), c1) \<Rightarrow> (Panics (PanicRuntime e), c1)
      | (Inr _, c1) \<Rightarrow> (Returns (Some (r c1)) None, c1\<lparr>r := \<lparr>typeW = '''', codeW = ''''\<rparr>\<rparr>))"

subsection \<open>Type checking\<close>

text \<open>
  The expressions that \<^verbatim>\<open>typecheck.go\<close> gives a \<^verbatim>\<open>TypeOf\<close> method, with the fields the
  methods read: \<^verbatim>\<open>AssignExpr{L, R}\<close>, \<^verbatim>\<open>CallExpr{Func, ...}\<close> (with its arguments),
  \<^verbatim>\<open>VarExpr\<close> (a string), \<^verbatim>\<open>RefExpr{V}\<close>, \<^verbatim>\<open>DerefExpr{V}\<close>, \<^verbatim>\<open>BinaryExpr{L, Op, R}\<close>
  and the three literals.
\<close>

datatype Expr =
    AssignExpr Expr Expr
  | CallExpr Expr "Expr list"
  | VarExpr string
  | RefExpr Expr
  | DerefExpr Expr
  | BinaryExpr Expr string Expr
  | IntegerExpr string
  | FloatExpr string
  | StringExpr string

text \<open>
  The type switch of \<^verbatim>\<open>CallExpr.typeOf\<close> on the type of the callee. The result is the
  function type (its parameters and its return type) and the flag \<^verbatim>\<open>ptr\<close>. The
  type assertion \<^verbatim>\<open>t.To.(FuncType)\<close> has one result, so it panics when it fails, with a
  \<^verbatim>\<open>runtime.Error\<close>. A \<^verbatim>\<open>nil\<close> type matches no case of the switch.
\<close>

definition CallExpr_typeOf_switch :: "Type option \<Rightarrow> panic + ((Type list \<times> Type option) \<times> bool)" where
  "CallExpr_typeOf_switch ftyp =
     (case ftyp of
        Some (FuncType params res) \<Rightarrow> Inr ((params, res), False)
      | Some (PointerType to) \<Rightarrow>
         (case to of
            Some (FuncType params res) \<Rightarrow> Inr ((params, res), True)
          | _ \<Rightarrow> Inl (PanicRuntime ''interface conversion: Type is not FuncType''))
      | _ \<Rightarrow> Inl (PanicString ''Invalid function type''))"

text \<open>
  \<^verbatim>\<open>TypeOf\<close> reads the compiler (through \<^verbatim>\<open>Variable\<close>) and does not change it. Its
  result is a \<^verbatim>\<open>Type\<close>, which may be \<^verbatim>\<open>nil\<close>. A method called on a \<^verbatim>\<open>nil\<close> interface
  and a failed type assertion with one result are run-time panics.
\<close>

fun TypeOf :: "TypeOps \<Rightarrow> Compiler \<Rightarrow> Expr \<Rightarrow> panic + Type option" where
  "TypeOf T c (AssignExpr L R) =
     (case TypeOf T c L of
        Inl p \<Rightarrow> Inl p
      | Inr None \<Rightarrow> Inl (PanicString ''Lvalue of non-concrete type'')
      | Inr (Some ltyp) \<Rightarrow>
          if \<not> isConcreteType T ltyp then Inl (PanicString ''Lvalue of non-concrete type'')
          else (case TypeOf T c R of
                  Inl p \<Rightarrow> Inl p
                | Inr rtyp \<Rightarrow>
                    if \<not> Compatible T (Some ltyp) rtyp
                    then Inl (PanicString ''Operands of assignment are incompatible'')
                    else Inr (Some ltyp)))"
| "TypeOf T c (CallExpr callee args) =
     (case TypeOf T c callee of
        Inl p \<Rightarrow> Inl p
      | Inr ftyp \<Rightarrow>
         (case CallExpr_typeOf_switch ftyp of
            Inl p \<Rightarrow> Inl p
          | Inr ((params, res), _) \<Rightarrow> Inr res))"
| "TypeOf T c (VarExpr name) =
     (case Variable name c of
        Inl p \<Rightarrow> Inl p
      | Inr v \<Rightarrow> Inr (Some (Ty v)))"
| "TypeOf T c (RefExpr V) =
     (case TypeOf T c V of
        Inl p \<Rightarrow> Inl p
      | Inr None \<Rightarrow> Inl (PanicRuntime ''interface conversion: interface is nil, not ConcreteType'')
      | Inr (Some t) \<Rightarrow>
          if isConcreteType T t then Inr (Some (PointerType (Some t)))
          else Inl (PanicRuntime ''interface conversion: Type is not ConcreteType''))"
| "TypeOf T c (DerefExpr V) =
     (case TypeOf T c V of
        Inl p \<Rightarrow> Inl p
      | Inr (Some (PointerType to)) \<Rightarrow> Inr to
      | Inr _ \<Rightarrow> Inl (PanicString ''Dereference of non-pointer type''))"
| "TypeOf T c (BinaryExpr L Op R) =
     (case TypeOf T c L of
        Inl p \<Rightarrow> Inl p
      | Inr ltyp \<Rightarrow>
         (case TypeOf T c R of
            Inl p \<Rightarrow> Inl p
          | Inr rtyp \<Rightarrow>
              if \<not> Compatible T ltyp rtyp
              then Inl (PanicString ''Operands of binary expression are incompatible'')
              else (case ltyp of
                      None \<Rightarrow> Inl (PanicRuntime ''nil pointer dereference'')
                    | Some lt \<Rightarrow>
                        if IsConcrete T lt
                        then (if isNumericType T (Concrete T lt) then Inr (Some (Concrete T lt))
                              else Inl (PanicString ''Operand of binary expression is of non-numeric type''))
                        else (case rtyp of
                                None \<Rightarrow> Inl (PanicRuntime ''nil pointer dereference'')
                              | Some rt \<Rightarrow>
                                  let ctyp = (if IsConcrete T rt then Concrete T rt else Concrete T lt) in
                                  if isNumericType T ctyp then Inr (Some ctyp)
                                  else Inl (PanicString ''Operand of binary expression is of non-numeric type'')))))"
| "TypeOf T c (IntegerExpr _) = Inr (Some IntLitType)"
| "TypeOf T c (FloatExpr _) = Inr (Some FloatLitType)"
| "TypeOf T c (StringExpr _) = Inr (Some (PointerType (Some TypeI8)))"

text \<open>\<^verbatim>\<open>CallExpr.typeOf\<close>, for a call expression with the callee \<^verbatim>\<open>e.Func\<close>.\<close>

definition CallExpr_typeOf ::
  "TypeOps \<Rightarrow> Compiler \<Rightarrow> Expr \<Rightarrow> panic + ((Type list \<times> Type option) \<times> bool)" where
  "CallExpr_typeOf T c callee =
     (case TypeOf T c callee of
        Inl p \<Rightarrow> Inl p
      | Inr ftyp \<Rightarrow> CallExpr_typeOf_switch ftyp)"

subsection \<open>An instance of the type operations\<close>

text \<open>
  Modelled from the spec: the functions on types that are declared outside the sources,
  to run the model on concrete inputs. Compatibility follows sections 3 and 4.1 of the spec
  (the same type; the integer literal type with any base numeric type and the float
  literal type with any float; the generic pointer with any pointer; arrays of equal
  length and structs or unions of equally many fields, element by element). No rule
  makes an absent type compatible with anything. The literal types are not concrete and
  an integer literal alone is a 64-bit integer. Sizes, alignments and letters are given
  for the base types, pointers and function types, with the values the expected outputs
  of the repository's tests show; the layout of aggregates and the slots of named types
  are not modelled, and such a type has the metrics 0, no base letter and an empty name.
\<close>

definition spec_numeric :: "Type \<Rightarrow> bool" where
  "spec_numeric t = (t \<in> {TypeI64, TypeI32, TypeI16, TypeI8, TypeU64, TypeU32, TypeU16, TypeU8,
                          TypeF64, TypeF32, TypeBool})"

definition spec_float :: "Type \<Rightarrow> bool" where
  "spec_float t = (t = TypeF64 \<or> t = TypeF32)"

fun spec_compatible :: "Type \<Rightarrow> Type \<Rightarrow> bool"
  and spec_compatible_fields :: "(string \<times> Type) list \<Rightarrow> (string \<times> Type) list \<Rightarrow> bool"
where
  "spec_compatible IntLitType b = (b = IntLitType \<or> spec_numeric b)"
| "spec_compatible FloatLitType b = (b = FloatLitType \<or> spec_float b)"
| "spec_compatible (PointerType x) b =
     (case b of PointerType y \<Rightarrow> x = None \<or> y = None \<or> x = y | _ \<Rightarrow> False)"
| "spec_compatible (ArrayType ta n) b =
     (case b of ArrayType tb m \<Rightarrow> n = m \<and> spec_compatible ta tb | _ \<Rightarrow> False)"
| "spec_compatible (StructType fa) b =
     (case b of StructType fb \<Rightarrow> spec_compatible_fields fa fb | _ \<Rightarrow> False)"
| "spec_compatible (UnionType fa) b =
     (case b of UnionType fb \<Rightarrow> spec_compatible_fields fa fb | _ \<Rightarrow> False)"
| "spec_compatible a b =
     (a = b \<or> (b = IntLitType \<and> spec_numeric a) \<or> (b = FloatLitType \<and> spec_float a))"
| "spec_compatible_fields [] fb = (fb = [])"
| "spec_compatible_fields ((n, t) # fa) fb =
     (case fb of [] \<Rightarrow> False | (m, u) # fb' \<Rightarrow> spec_compatible t u \<and> spec_compatible_fields fa fb')"

definition spec_IsConcrete :: "Type \<Rightarrow> bool" where
  "spec_IsConcrete t = (case t of IntLitType \<Rightarrow> False | FloatLitType \<Rightarrow> False
                          | NamespaceType _ \<Rightarrow> False | _ \<Rightarrow> True)"

definition spec_Concrete :: "Type \<Rightarrow> Type" where
  "spec_Concrete t = (case t of IntLitType \<Rightarrow> TypeI64 | FloatLitType \<Rightarrow> TypeF64 | _ \<Rightarrow> t)"

definition spec_letter :: "Type \<Rightarrow> string" where
  "spec_letter t =
     (if t = TypeI8 \<or> t = TypeU8 \<or> t = TypeBool then ''b''
      else if t = TypeI16 \<or> t = TypeU16 then ''h''
      else if t = TypeI32 \<or> t = TypeU32 then ''w''
      else if t = TypeI64 \<or> t = TypeU64 then ''l''
      else if t = TypeF32 then ''s''
      else if t = TypeF64 then ''d''
      else (case t of PointerType _ \<Rightarrow> ''l'' | FuncType _ _ \<Rightarrow> ''l'' | _ \<Rightarrow> ''''))"

definition spec_base :: "Type \<Rightarrow> char" where
  "spec_base t =
     (let s = spec_letter t in
      if s = ''b'' \<or> s = ''h'' then CHR ''w'' else if s = '''' then CHR 0x00 else hd s)"

definition spec_Metrics :: "Type \<Rightarrow> TypeMetrics" where
  "spec_Metrics t =
     (let s = spec_letter t;
          n = (if s = ''b'' then 1 else if s = ''h'' then 2
               else if s = ''w'' \<or> s = ''s'' then 4
               else if s = ''l'' \<or> s = ''d'' then 8 else 0)
      in \<lparr>Size = n, Align = n\<rparr>)"

definition spec_GenZero :: "Type \<Rightarrow> Operand \<Rightarrow> Compiler \<Rightarrow> unit result" where
  "spec_GenZero t loc c =
     (if spec_letter t = '''' then (Inr (), c)
      else (Inr (), Insn 0 (CHR 0x00) (''store'' @ spec_letter t) [OIRInteger ''0'', loc] c))"

definition spec_types :: TypeOps where
  "spec_types = \<lparr>
     Compatible = (\<lambda>a b. case (a, b) of (Some x, Some y) \<Rightarrow> spec_compatible x y | _ \<Rightarrow> False),
     IsConcrete = spec_IsConcrete,
     Concrete = spec_Concrete,
     isConcreteType = spec_IsConcrete,
     isNumericType = spec_numeric,
     Metrics = spec_Metrics,
     IRTypeName = (\<lambda>t c. (spec_letter t, c)),
     IRBaseTypeName = spec_base,
     GenZero = spec_GenZero\<rparr>"

subsection \<open>Invariants\<close>

text \<open>
  The string pool and its index agree: \<^verbatim>\<open>strM\<close> maps exactly the strings of
  \<^verbatim>\<open>strs\<close>, each to its position.
\<close>

definition str_inv :: "Compiler \<Rightarrow> bool" where
  "str_inv c \<longleftrightarrow> (\<forall>s i. strM c s = Some i \<longleftrightarrow> (i < length (strs c) \<and> strs c ! i = s))"

subsection \<open>The promotion of small parameter types, in the spec's words\<close>

text \<open>
  The spec's rule for function headers and call operands: a type letter \<^verbatim>\<open>b\<close> or
  \<^verbatim>\<open>h\<close> is rewritten to \<^verbatim>\<open>w\<close>, any other type text is kept. \<open>join_with\<close> puts a
  separator between the elements of a list.
\<close>

definition promoted :: "string \<Rightarrow> string" where
  "promoted ty = (if ty = ''b'' \<or> ty = ''h'' then ''w'' else ty)"

fun join_with :: "string \<Rightarrow> string list \<Rightarrow> string" where
  "join_with sep [] = ''''"
| "join_with sep [x] = x"
| "join_with sep (x # y # ys) = x @ sep @ join_with sep (y # ys)"

text \<open>
  The type names that the types of the parameters report and the temporaries that the
  parameters get, in the order in which the first loop of \<^verbatim>\<open>StartFunction\<close> asks for
  them, and the compiler after the loop: that loop without its text.
\<close>

fun StartFunction_raw ::
  "TypeOps \<Rightarrow> IRParam list \<Rightarrow> Compiler \<Rightarrow> (string \<times> Temporary) list \<times> Compiler" where
  "StartFunction_raw T [] c = ([], c)"
| "StartFunction_raw T (param # params) c =
     (let (ptype, c1) = IRTypeName T (ParamTy param) c;
          (t, c2) = Temporary c1;
          (rest, c3) = StartFunction_raw T params c2
      in ((ptype, t) # rest, c3))"

subsection \<open>Example programs\<close>

text \<open>
  Modelled from the spec: the driver that walks a parsed program is not among the
  sources; by the spec it declares the globals, opens and closes functions and
  namespaces, and lowers the statements, which types their expressions. The lowerings
  below are the calls of the compiler's methods that a few small programs lead to. A
  panic ends the lowering where it happens: \<open>seq\<close> is one call after another.
\<close>

definition seq :: "Program \<Rightarrow> Program \<Rightarrow> Program" where
  "seq f g c = (case f c of (Inl p, c1) \<Rightarrow> (Inl p, c1) | (Inr _, c1) \<Rightarrow> g c1)"

definition typecheck :: "TypeOps \<Rightarrow> Expr \<Rightarrow> Program" where
  "typecheck T e c = (case TypeOf T c e of Inl p \<Rightarrow> (Inl p, c) | Inr _ \<Rightarrow> (Inr (), c))"

text \<open>The empty program.\<close>

definition prog_empty :: Program where
  "prog_empty c = (Inr (), c)"

text \<open>\<^verbatim>\<open>var x I32\<close> twice: the second declaration is a duplicate.\<close>

definition prog_var_x_twice :: Program where
  "prog_var_x_twice = seq (DeclareGlobal False ''x'' TypeI32) (DeclareGlobal False ''x'' TypeI32)"

text \<open>\<^verbatim>\<open>fn g() { var p [I32]; p() }\<close>, up to the typing of the call.\<close>

definition prog_call_pointer :: "TypeOps \<Rightarrow> Program" where
  "prog_call_pointer T =
     seq (StartFunction T False ''g'' [] '''')
       (seq (DeclareLocal T ''p'' (PointerType (Some TypeI32)))
          (typecheck T (CallExpr (VarExpr ''p'') [])))"

text \<open>
  \<^verbatim>\<open>fn f() { var a I32; ... "hi" ...; nope }\<close>, up to the typing of the undeclared
  variable: the function is opened, the local is declared and the string is interned.
\<close>

definition prog_undefined_variable :: "TypeOps \<Rightarrow> Program" where
  "prog_undefined_variable T =
     seq (StartFunction T False ''f'' [] '''')
       (seq (DeclareLocal T ''a'' TypeI32)
          (seq (\<lambda>c. (Inr (), snd (String ''hi'' c)))
             (typecheck T (VarExpr ''nope''))))"

section \<open>Properties\<close>

subsection \<open>Helper lemmas\<close>

lemma Utoa_digit: "n < 10 \<Longrightarrow> Utoa n = [digit n]"
  by (simp add: Utoa.simps)

lemma Insn_ret_id: "ret c \<Longrightarrow> Insn rv rt opc ops c = c"
  by (simp add: Insn_def)

lemma fold_Insn_ret_id:
  "ret c \<Longrightarrow> fold (\<lambda>(rv, rt, opc, ops). Insn rv rt opc ops) calls c = c"
  by (induction calls) (auto simp: Insn_ret_id)

lemmas emit_defs =
  Insn_def Insn_line_def Writef_def StartBlock_def EndFunction_def NewCompiler_def
  Temporary_IsZero_def Temporary_Operand_def Block_Operand_def Global_Operand_def
  IRInteger_Operand_def fmt_c_def digit_def

subsection \<open>Dead code after \<^verbatim>\<open>ret\<close>\<close>

text \<open>
  C2, as the spec states it, fails: \<^verbatim>\<open>StartBlock\<close> is not the only method that clears
  the flag. \<^verbatim>\<open>EndFunction\<close> clears it too, so in the function after a function that
  ended in \<^verbatim>\<open>ret\<close>, \<^verbatim>\<open>Insn\<close> appends although \<^verbatim>\<open>StartBlock\<close> was not called: here
  the flag is set by the first call, and the call after \<^verbatim>\<open>EndFunction\<close> writes its line.
\<close>

theorem Insn_after_EndFunction_counterexample:
  "ret (Insn 0 (CHR 0x00) ''ret'' [] NewCompiler)
   \<and> codeW (r (Insn 1 (CHR ''w'') ''copy'' [OIRInteger ''7'']
         (EndFunction (Insn 0 (CHR 0x00) ''ret'' [] NewCompiler))))
      \<noteq> codeW (r (EndFunction (Insn 0 (CHR 0x00) ''ret'' [] NewCompiler)))
   \<and> codeW (r (Insn 1 (CHR ''w'') ''copy'' [OIRInteger ''7'']
         (EndFunction (Insn 0 (CHR 0x00) ''ret'' [] NewCompiler))))
      = TAB @ ''ret'' @ NL @ ''}'' @ NL @ TAB @ ''%t1 =w copy 7'' @ NL"
  by (simp add: emit_defs Utoa_digit)

text \<open>
  C2, amended: once \<^verbatim>\<open>Insn\<close> has emitted an instruction with the opcode \<^verbatim>\<open>ret\<close>, the
  flag is set and every sequence of \<^verbatim>\<open>Insn\<close> calls that follows leaves the compiler as
  it is, so nothing is appended to the code buffer, until \<^verbatim>\<open>StartBlock\<close> or
  \<^verbatim>\<open>EndFunction\<close> is called. \<^verbatim>\<open>StartBlock\<close> writes the block label and clears the flag,
  \<^verbatim>\<open>EndFunction\<close> writes the closing brace and clears the flag, and after either the
  next \<^verbatim>\<open>Insn\<close> call appends its line.
\<close>

theorem Insn_suppressed_after_ret:
  "\<not> ret c \<Longrightarrow>
   (let c1 = Insn retVar retType ''ret'' operands c in
      ret c1
    \<and> codeW (r c1) = codeW (r c) @ Insn_line retVar retType ''ret'' operands
    \<and> fold (\<lambda>(rv, rt, opc, ops). Insn rv rt opc ops) calls c1 = c1
    \<and> \<not> ret (StartBlock b c1)
    \<and> codeW (r (StartBlock b c1)) = codeW (r c1) @ Block_Operand b @ NL
    \<and> codeW (r (Insn rv rt opc ops (StartBlock b c1)))
        = codeW (r (StartBlock b c1)) @ Insn_line rv rt opc ops
    \<and> \<not> ret (EndFunction c1)
    \<and> codeW (r (EndFunction c1)) = codeW (r c1) @ ''}'' @ NL
    \<and> codeW (r (Insn rv rt opc ops (EndFunction c1)))
        = codeW (r (EndFunction c1)) @ Insn_line rv rt opc ops)"
  unfolding Let_def
  by (intro conjI)
     (simp_all add: fold_Insn_ret_id Insn_def Writef_def StartBlock_def EndFunction_def)

theorem Insn_suppressed_after_ret_witness:
  "\<not> ret NewCompiler \<and>
   (let c1 = Insn 0 (CHR 0x00) ''ret'' [OIRInteger ''0''] NewCompiler in
      ret c1
    \<and> codeW (r c1) = TAB @ ''ret 0'' @ NL
    \<and> fold (\<lambda>(rv, rt, opc, ops). Insn rv rt opc ops)
         [(1, CHR ''w'', ''add'', [OTemporary 2, OTemporary 3]), (0, CHR 0x00, ''ret'', [])] c1 = c1
    \<and> codeW (r (Insn 1 (CHR ''w'') ''copy'' [OIRInteger ''7''] (StartBlock 1 c1)))
        = TAB @ ''ret 0'' @ NL @ ''@b1'' @ NL @ TAB @ ''%t1 =w copy 7'' @ NL
    \<and> codeW (r (Insn 1 (CHR ''w'') ''copy'' [OIRInteger ''7''] (EndFunction c1)))
        = TAB @ ''ret 0'' @ NL @ ''}'' @ NL @ TAB @ ''%t1 =w copy 7'' @ NL)"
  using Insn_suppressed_after_ret [of NewCompiler 0 "CHR 0x00" "[OIRInteger ''0'']"
      "[(1, CHR ''w'', ''add'', [OTemporary 2, OTemporary 3]), (0, CHR 0x00, ''ret'', [])]"
      1 1 "CHR ''w''" "''copy''" "[OIRInteger ''7'']"]
  by (simp add: NewCompiler_def Let_def Insn_line_def Temporary_IsZero_def Block_Operand_def
      Temporary_Operand_def Utoa_digit digit_def IRInteger_Operand_def fmt_c_def)

subsection \<open>What \<^verbatim>\<open>Finish\<close> writes\<close>

lemma fold_GenType_typeW:
  "typeW (r (fold GenType ls c)) = typeW (r c) @ concat (map GenType_text ls)"
  by (induction ls arbitrary: c) (auto simp: GenType_def)

lemma fold_GenType_codeW: "codeW (r (fold GenType ls c)) = codeW (r c)"
  by (induction ls arbitrary: c) (auto simp: GenType_def)

lemma fold_GenType_pools:
  "comps (fold GenType ls c) = comps c"
  "strs (fold GenType ls c) = strs c"
  "data (fold GenType ls c) = data c"
  by (induction ls arbitrary: c) (auto simp: GenType_def)

lemma fold_Writef_typeW: "typeW (r (fold (\<lambda>d. Writef (f d)) ds c)) = typeW (r c)"
  by (induction ds arbitrary: c) (auto simp: Writef_def)

lemma fold_Writef_codeW:
  "codeW (r (fold (\<lambda>d. Writef (f d)) ds c)) = codeW (r c) @ concat (map f ds)"
  by (induction ds arbitrary: c) (auto simp: Writef_def)

lemma Finish_strs_typeW: "typeW (r (Finish_strs i xs c)) = typeW (r c)"
  by (induction xs arbitrary: i c) (auto simp: Writef_def)

lemma Finish_strs_codeW:
  "codeW (r (Finish_strs i xs c))
     = codeW (r c) @ concat (map (\<lambda>(j, s). Finish_str_line j s) (enumerate i xs))"
  by (induction xs arbitrary: i c) (auto simp: Writef_def)

lemma Finish_strs_pools:
  "comps (Finish_strs i xs c) = comps c"
  "strs (Finish_strs i xs c) = strs c"
  "data (Finish_strs i xs c) = data c"
  by (induction xs arbitrary: i c) (auto simp: Writef_def)

lemma Finish_typeW:
  "typeW (r (Finish T c)) = typeW (r c) @ concat (map GenType_text (comps c))"
  by (simp add: Finish_def Let_def fold_Writef_typeW fold_GenType_typeW Finish_strs_typeW)

lemma Finish_codeW:
  "codeW (r (Finish T c))
     = codeW (r c) @ concat (map (\<lambda>(j, s). Finish_str_line j s) (enumerate 0 (strs c)))
       @ concat (map (Finish_data_line T) (data c))"
  by (simp add: Finish_def Let_def fold_Writef_codeW fold_GenType_codeW fold_GenType_pools
      Finish_strs_codeW Finish_strs_pools)

subsection \<open>The pool of composite layouts is sorted\<close>

lemma strings_Compare_cases:
  "strings_Compare a b = 0 \<longleftrightarrow> a = b"
  "strings_Compare a b = 1 \<longleftrightarrow> b < a"
  by (auto simp: strings_Compare_def)

lemma CompositeType_loop_set:
  "set (CompositeType_loop (Ident layout) layout xs) \<subseteq> insert layout (set xs)"
  by (induction xs) (auto simp: Let_def)

lemma CompositeType_loop_sorted:
  "sorted_wrt (<) (map Ident xs) \<Longrightarrow>
   sorted_wrt (<) (map Ident (CompositeType_loop (Ident layout) layout xs))"
proof (induction xs)
  case Nil
  then show ?case by simp
next
  case (Cons x xs)
  show ?case
  proof (cases "Ident x = Ident layout")
    case True
    with Cons.prems show ?thesis by (simp add: strings_Compare_cases)
  next
    case ne: False
    show ?thesis
    proof (cases "Ident layout < Ident x")
      case True
      with Cons.prems ne show ?thesis
        by (auto simp: strings_Compare_cases Let_def)
    next
      case False
      with ne have lt: "Ident x < Ident layout" by auto
      have "\<forall>y \<in> set (CompositeType_loop (Ident layout) layout xs). Ident x < Ident y"
        using CompositeType_loop_set[of layout xs] Cons.prems lt by auto
      with Cons ne False show ?thesis
        by (simp add: strings_Compare_cases Let_def)
    qed
  qed
qed

lemma CompositeType_loop_found:
  "sorted_wrt (<) (map Ident xs) \<Longrightarrow> Ident layout \<in> Ident ` set xs \<Longrightarrow>
   CompositeType_loop (Ident layout) layout xs = xs"
proof (induction xs)
  case Nil
  then show ?case by simp
next
  case (Cons x xs)
  show ?case
  proof (cases "Ident x = Ident layout")
    case True
    then show ?thesis by (simp add: strings_Compare_cases)
  next
    case False
    with Cons.prems have mem: "Ident layout \<in> Ident ` set xs" by auto
    with Cons.prems have "Ident x < Ident layout" by auto
    then have "\<not> Ident layout < Ident x" by simp
    with False Cons mem show ?thesis by (simp add: strings_Compare_cases Let_def)
  qed
qed

lemma CompositeType_loop_insert:
  "sorted_wrt (<) (map Ident xs) \<Longrightarrow> Ident layout \<notin> Ident ` set xs \<Longrightarrow>
   CompositeType_loop (Ident layout) layout xs
     = filter (\<lambda>l. Ident l < Ident layout) xs @ [layout]
         @ filter (\<lambda>l. Ident layout < Ident l) xs"
proof (induction xs)
  case Nil
  then show ?case by simp
next
  case (Cons x xs)
  then have ne: "Ident x \<noteq> Ident layout" by auto
  show ?case
  proof (cases "Ident layout < Ident x")
    case True
    with Cons.prems have "\<forall>y\<in>set xs. Ident layout < Ident y" by auto
    then have "filter (\<lambda>l. Ident l < Ident layout) xs = []"
      and "filter (\<lambda>l. Ident layout < Ident l) xs = xs"
      by (auto simp: filter_empty_conv filter_id_conv)
    with True ne show ?thesis by (simp add: strings_Compare_cases Let_def)
  next
    case False
    with ne have "Ident x < Ident layout" by auto
    with Cons ne False show ?thesis by (simp add: strings_Compare_cases Let_def)
  qed
qed

lemma fold_CompositeType_sorted:
  "sorted_wrt (<) (map Ident (comps c)) \<Longrightarrow>
   sorted_wrt (<) (map Ident (comps (fold (\<lambda>l c. snd (CompositeType l c)) ls c)))"
proof (induction ls arbitrary: c)
  case Nil
  then show ?case by simp
next
  case (Cons l ls)
  have "sorted_wrt (<) (map Ident (comps (snd (CompositeType l c))))"
    using Cons.prems by (simp add: CompositeType_def Let_def CompositeType_loop_sorted)
  then show ?case using Cons.IH by simp
qed

lemmas pool_defs =
  CompositeType_def Ident_def strings_Compare_def Itoa_def digit_def GenType_text_def

text \<open>
  C5: if the pool is sorted by identifier, strictly, in the byte order of
  \<^verbatim>\<open>strings.Compare\<close> (as it is after any calls of \<^verbatim>\<open>CompositeType\<close> on a new
  compiler; no other method writes the pool), then
  \<^verbatim>\<open>CompositeType(layout)\<close> returns the identifier of the layout and changes nothing
  but the pool; it leaves the pool as it is when an entry has that identifier, and
  otherwise puts the layout between the entries with smaller and those with greater
  identifiers; the pool is sorted again and no two of its layouts have the same
  identifier; and the types buffer that \<^verbatim>\<open>Finish\<close> then writes declares the layouts of
  the pool one after the other, so each identifier at most once.
\<close>

theorem CompositeType_pool_sorted:
  "sorted_wrt (<) (map Ident (comps c)) \<Longrightarrow>
   fst (CompositeType layout c) = Ident layout
   \<and> snd (CompositeType layout c) = c\<lparr>comps := comps (snd (CompositeType layout c))\<rparr>
   \<and> (if Ident layout \<in> Ident ` set (comps c)
      then comps (snd (CompositeType layout c)) = comps c
      else comps (snd (CompositeType layout c))
             = filter (\<lambda>l. Ident l < Ident layout) (comps c) @ [layout]
                 @ filter (\<lambda>l. Ident layout < Ident l) (comps c))
   \<and> sorted_wrt (<) (map Ident (comps (snd (CompositeType layout c))))
   \<and> distinct (map Ident (comps (snd (CompositeType layout c))))
   \<and> typeW (r (Finish T (snd (CompositeType layout c))))
       = typeW (r c) @ concat (map GenType_text (comps (snd (CompositeType layout c))))
   \<and> sorted_wrt (<) (map Ident (comps (fold (\<lambda>l c. snd (CompositeType l c)) ls NewCompiler)))"
proof -
  assume inv: "sorted_wrt (<) (map Ident (comps c))"
  let ?c' = "snd (CompositeType layout c)"
  have comps': "comps ?c' = CompositeType_loop (Ident layout) layout (comps c)"
    by (simp add: CompositeType_def Let_def)
  have s: "sorted_wrt (<) (map Ident (comps ?c'))"
    unfolding comps' using inv by (rule CompositeType_loop_sorted)
  have d: "distinct (map Ident (comps ?c'))"
    using s strict_sorted_iff by blast
  have f: "Ident layout \<in> Ident ` set (comps c) \<Longrightarrow> comps ?c' = comps c"
    unfolding comps' using inv by (rule CompositeType_loop_found)
  have i: "Ident layout \<notin> Ident ` set (comps c) \<Longrightarrow> comps ?c'
             = filter (\<lambda>l. Ident l < Ident layout) (comps c) @ [layout]
                 @ filter (\<lambda>l. Ident layout < Ident l) (comps c)"
    unfolding comps' using inv by (rule CompositeType_loop_insert)
  have t: "typeW (r (Finish T ?c')) = typeW (r c) @ concat (map GenType_text (comps ?c'))"
    by (simp add: Finish_typeW) (simp add: CompositeType_def Let_def)
  have e: "?c' = c\<lparr>comps := comps ?c'\<rparr>"
    by (simp add: CompositeType_def Let_def)
  have n: "fst (CompositeType layout c) = Ident layout"
    by (simp add: CompositeType_def Let_def)
  have z: "sorted_wrt (<) (map Ident (comps (fold (\<lambda>l c. snd (CompositeType l c)) ls NewCompiler)))"
    by (rule fold_CompositeType_sorted) (simp add: NewCompiler_def)
  from f i have fi: "if Ident layout \<in> Ident ` set (comps c)
      then comps ?c' = comps c
      else comps ?c' = filter (\<lambda>l. Ident l < Ident layout) (comps c) @ [layout]
                 @ filter (\<lambda>l. Ident layout < Ident l) (comps c)"
    by simp
  from n e fi s d t z show ?thesis by (intro conjI)
qed

text \<open>
  Two layouts of the test \<^verbatim>\<open>TestStruct\<close>, in the order the program meets them: the
  second goes before the first.
\<close>

theorem CompositeType_pool_sorted_witness:
  "sorted_wrt (<) (map Ident (comps (snd (CompositeType
       [CompositeEntry ''w'' 2, CompositeEntry ''l'' 1] NewCompiler))))
   \<and> fst (CompositeType [CompositeEntry ''b'' 3] (snd (CompositeType
       [CompositeEntry ''w'' 2, CompositeEntry ''l'' 1] NewCompiler))) = '':b3''
   \<and> comps (snd (CompositeType [CompositeEntry ''b'' 3] (snd (CompositeType
       [CompositeEntry ''w'' 2, CompositeEntry ''l'' 1] NewCompiler))))
      = [[CompositeEntry ''b'' 3], [CompositeEntry ''w'' 2, CompositeEntry ''l'' 1]]
   \<and> typeW (r (Finish spec_types (snd (CompositeType [CompositeEntry ''b'' 3] (snd (CompositeType
       [CompositeEntry ''w'' 2, CompositeEntry ''l'' 1] NewCompiler))))))
      = ''type :b3 = { b 3 }'' @ NL @ ''type :w2l = { w 2, l }'' @ NL"
  using CompositeType_pool_sorted [of "snd (CompositeType
       [CompositeEntry ''w'' 2, CompositeEntry ''l'' 1] NewCompiler)"
       "[CompositeEntry ''b'' 3]" spec_types]
  by (simp add: pool_defs Utoa_digit NewCompiler_def)

subsection \<open>The string pool\<close>

lemma str_inv_distinct: "str_inv c \<Longrightarrow> distinct (strs c)"
  unfolding str_inv_def distinct_conv_nth
  by (metis option.inject)

lemma str_inv_mem: "str_inv c \<Longrightarrow> s \<in> set (strs c) \<longleftrightarrow> strM c s \<noteq> None"
  unfolding str_inv_def in_set_conv_nth by (metis not_None_eq)

lemma String_new:
  "strM c s = None \<Longrightarrow>
   String s c = (''str'' @ Utoa (length (strs c)),
                 c\<lparr>strM := (strM c)(s \<mapsto> length (strs c)), strs := strs c @ [s]\<rparr>)"
  by (simp add: String_def Let_def)

lemma String_old: "strM c s = Some i \<Longrightarrow> String s c = (''str'' @ Utoa i, c)"
  by (simp add: String_def)

lemma String_str_inv: "str_inv c \<Longrightarrow> str_inv (snd (String s c))"
proof (cases "strM c s")
  case (Some i)
  assume "str_inv c"
  with Some show ?thesis by (simp add: String_old)
next
  case None
  assume inv: "str_inv c"
  then have notin: "s \<notin> set (strs c)" using None by (simp add: str_inv_mem)
  show ?thesis
    unfolding String_new[OF None] str_inv_def
  proof (intro allI)
    fix t i
    show "strM (snd (''str'' @ Utoa (length (strs c)), c\<lparr>strM := (strM c)(s \<mapsto> length (strs c)), strs := strs c @ [s]\<rparr>)) t = Some i
       \<longleftrightarrow> (i < length (strs (snd (''str'' @ Utoa (length (strs c)), c\<lparr>strM := (strM c)(s \<mapsto> length (strs c)), strs := strs c @ [s]\<rparr>)))
           \<and> strs (snd (''str'' @ Utoa (length (strs c)), c\<lparr>strM := (strM c)(s \<mapsto> length (strs c)), strs := strs c @ [s]\<rparr>)) ! i = t)"
    proof (cases "t = s")
      case True
      with notin show ?thesis
        by (auto simp: nth_append less_Suc_eq)
    next
      case False
      with inv show ?thesis
        by (auto simp: nth_append less_Suc_eq str_inv_def)
    qed
  qed
qed

lemma String_keeps: "strM c s = Some i \<Longrightarrow> strM (snd (String t c)) s = Some i"
  by (cases "strM c t") (auto simp: String_def Let_def)

lemma fold_String_keeps:
  "strM c s = Some i \<Longrightarrow> strM (fold (\<lambda>t c. snd (String t c)) ts c) s = Some i"
  by (induction ts arbitrary: c) (auto simp: String_keeps)

lemma filter_enumerate_distinct:
  "distinct xs \<Longrightarrow> s \<in> set xs \<Longrightarrow> length (filter (\<lambda>(j, t). t = s) (enumerate i xs)) = 1"
  by (induction xs arbitrary: i) (auto simp: filter_empty_conv in_set_enumerate_eq)

lemmas str_defs = String_def IRString_String_def Finish_str_line_def Finish_data_line_def

text \<open>
  C4: while the pool and its index agree (as they do in a new compiler, and
  \<^verbatim>\<open>String\<close> keeps it so), a call \<^verbatim>\<open>String(s)\<close> for a string that is not in the
  pool appends it and returns \<^verbatim>\<open>str\<close> followed by the number of distinct strings
  interned before; for a string in the pool it changes nothing and returns \<^verbatim>\<open>str\<close>
  followed by its position. After any further calls of \<^verbatim>\<open>String\<close>, for any strings,
  \<^verbatim>\<open>String(s)\<close> returns the same global again and changes nothing; the pool holds
  \<^verbatim>\<open>s\<close> exactly once, and \<^verbatim>\<open>Finish\<close> writes one \<^verbatim>\<open>data $strI = ...\<close> line for each
  entry of the pool, so exactly one for \<^verbatim>\<open>s\<close>.
\<close>

theorem String_interns_once:
  "str_inv c \<Longrightarrow>
   (let g = fst (String s c); c1 = snd (String s c);
        c2 = fold (\<lambda>t c. snd (String t c)) ts c1 in
      str_inv c1
    \<and> (if s \<in> set (strs c)
       then c1 = c \<and> (\<exists>i. i < length (strs c) \<and> strs c ! i = s \<and> g = ''str'' @ Utoa i)
       else g = ''str'' @ Utoa (card (set (strs c))) \<and> strs c1 = strs c @ [s]
            \<and> c1 = c\<lparr>strM := strM c1, strs := strs c1\<rparr>)
    \<and> String s c2 = (g, c2)
    \<and> length (filter (\<lambda>(j, t). t = s) (enumerate 0 (strs c2))) = 1
    \<and> codeW (r (Finish T c2))
        = codeW (r c2)
          @ concat (map (\<lambda>(j, t). ''data $str'' @ Utoa j @ '' = '' @ IRString_String t @ NL)
                     (enumerate 0 (strs c2)))
          @ concat (map (Finish_data_line T) (data c2)))
   \<and> str_inv NewCompiler"
proof -
  assume inv: "str_inv c"
  let ?g = "fst (String s c)" and ?c1 = "snd (String s c)"
  let ?c2 = "fold (\<lambda>t c. snd (String t c)) ts ?c1"
  have inv1: "str_inv ?c1" using inv by (rule String_str_inv)
  have inv2: "str_inv ?c2"
  proof -
    have "str_inv d \<Longrightarrow> str_inv (fold (\<lambda>t c. snd (String t c)) ts d)" for d
      by (induction ts arbitrary: d) (auto simp: String_str_inv)
    from this[of ?c1] inv1 show ?thesis by simp
  qed
  have dist: "distinct (strs c)" using inv by (rule str_inv_distinct)
  have a: "s \<in> set (strs c) \<Longrightarrow>
      ?c1 = c \<and> (\<exists>i. i < length (strs c) \<and> strs c ! i = s \<and> ?g = ''str'' @ Utoa i)"
  proof -
    assume "s \<in> set (strs c)"
    then obtain i where i: "strM c s = Some i" using inv by (auto simp: str_inv_mem)
    then have "i < length (strs c) \<and> strs c ! i = s" using inv by (simp add: str_inv_def)
    with i show ?thesis by (auto simp: String_old)
  qed
  have b: "s \<notin> set (strs c) \<Longrightarrow>
      ?g = ''str'' @ Utoa (card (set (strs c))) \<and> strs ?c1 = strs c @ [s]
      \<and> ?c1 = c\<lparr>strM := strM ?c1, strs := strs ?c1\<rparr>"
  proof -
    assume "s \<notin> set (strs c)"
    then have "strM c s = None" using inv by (simp add: str_inv_mem)
    then show ?thesis using dist by (simp add: String_new distinct_card)
  qed
  have m1: "\<exists>i. strM ?c1 s = Some i \<and> ?g = ''str'' @ Utoa i"
    by (cases "strM c s") (auto simp: String_def Let_def)
  then obtain i where i1: "strM ?c1 s = Some i" and g: "?g = ''str'' @ Utoa i" by blast
  from i1 have i2: "strM ?c2 s = Some i" by (rule fold_String_keeps)
  then have later: "String s ?c2 = (?g, ?c2)" using g by (simp add: String_old)
  from i2 inv2 have "s \<in> set (strs ?c2)" by (simp add: str_inv_mem)
  moreover have "distinct (strs ?c2)" using inv2 by (rule str_inv_distinct)
  ultimately have one: "length (filter (\<lambda>(j, t). t = s) (enumerate 0 (strs ?c2))) = 1"
    by (simp add: filter_enumerate_distinct)
  have fin: "codeW (r (Finish T ?c2))
        = codeW (r ?c2)
          @ concat (map (\<lambda>(j, t). ''data $str'' @ Utoa j @ '' = '' @ IRString_String t @ NL)
                     (enumerate 0 (strs ?c2)))
          @ concat (map (Finish_data_line T) (data ?c2))"
    by (simp add: Finish_codeW Finish_str_line_def)
  have new: "str_inv NewCompiler" by (simp add: str_inv_def NewCompiler_def)
  have ab: "if s \<in> set (strs c)
       then ?c1 = c \<and> (\<exists>i. i < length (strs c) \<and> strs c ! i = s \<and> ?g = ''str'' @ Utoa i)
       else ?g = ''str'' @ Utoa (card (set (strs c))) \<and> strs ?c1 = strs c @ [s]
            \<and> ?c1 = c\<lparr>strM := strM ?c1, strs := strs ?c1\<rparr>"
  proof (cases "s \<in> set (strs c)")
    case True
    show ?thesis by (subst if_P[OF True]) (rule a[OF True])
  next
    case False
    show ?thesis by (subst if_not_P[OF False]) (rule b[OF False])
  qed
  from inv1 ab later one fin new show ?thesis
    unfolding Let_def by (intro conjI)
qed

theorem String_interns_once_witness:
  "str_inv NewCompiler
   \<and> fst (String ''hi'' NewCompiler) = ''str0''
   \<and> strs (snd (String ''hi'' NewCompiler)) = [''hi'']
   \<and> String ''hi'' (fold (\<lambda>t c. snd (String t c)) [''yo'', ''hi''] (snd (String ''hi'' NewCompiler)))
      = (''str0'', fold (\<lambda>t c. snd (String t c)) [''yo'', ''hi''] (snd (String ''hi'' NewCompiler)))
   \<and> codeW (r (Finish spec_types
        (fold (\<lambda>t c. snd (String t c)) [''yo'', ''hi''] (snd (String ''hi'' NewCompiler)))))
      = ''data $str0 = { b '' @ DQUOTE @ ''hi'' @ DQUOTE @ '', b 0 }'' @ NL
        @ ''data $str1 = { b '' @ DQUOTE @ ''yo'' @ DQUOTE @ '', b 0 }'' @ NL"
proof -
  have h: "str_inv NewCompiler"
    by (simp add: str_inv_def NewCompiler_def)
  from String_interns_once [OF h, of "''hi''" "[''yo'', ''hi'']" spec_types]
  show ?thesis
    by (simp add: str_defs NewCompiler_def Let_def Utoa_digit digit_def)
qed

subsection \<open>The order of the finished output\<close>

lemma Finish_data_line_fun:
  "Finish_data_line T
     = (\<lambda>d. ''data '' @ fmt_s_Operand (Loc d)
              @ '' = align '' @ Itoa (Align (Metrics T (Concrete T (Ty d))))
              @ '' { z '' @ Itoa (Size (Metrics T (Concrete T (Ty d)))) @ '' }'' @ NL)"
  by (rule ext) (simp add: Finish_data_line_def Let_def)

text \<open>
  C6: \<^verbatim>\<open>Finish\<close> appends to the types buffer the declaration of every layout of the
  pool, in the order of the pool, and to the code buffer first one
  \<^verbatim>\<open>data $strI = ...\<close> line for every string of the pool, numbered from 0 in the order of
  the pool, and then one \<^verbatim>\<open>data <place> = align A { z S }\<close> line for every pending
  global, where \<^verbatim>\<open>A\<close> and \<^verbatim>\<open>S\<close> are the alignment and the size of its type and the
  place of a global \<^verbatim>\<open>name\<close> is \<^verbatim>\<open>$name\<close>. The finished result is the types buffer
  followed by the code buffer, so every type declaration stands before all code.
\<close>

theorem Finish_writes_in_order:
  "typeW (r (Finish T c)) = typeW (r c) @ concat (map GenType_text (comps c))
   \<and> codeW (r (Finish T c))
       = codeW (r c)
         @ concat (map (\<lambda>(i, s). ''data $str'' @ Utoa i @ '' = '' @ IRString_String s @ NL)
                    (enumerate 0 (strs c)))
         @ concat (map (\<lambda>d. ''data '' @ fmt_s_Operand (Loc d)
                            @ '' = align '' @ Itoa (Align (Metrics T (Concrete T (Ty d))))
                            @ '' { z '' @ Itoa (Size (Metrics T (Concrete T (Ty d)))) @ '' }'' @ NL)
                    (data c))
   \<and> fmt_s_Operand (OGlobal name) = ''$'' @ name
   \<and> CompileResult_String (r (Finish T c))
       = (typeW (r c) @ concat (map GenType_text (comps c)))
         @ (codeW (r c)
            @ concat (map (\<lambda>(i, s). Finish_str_line i s) (enumerate 0 (strs c)))
            @ concat (map (Finish_data_line T) (data c)))"
  by (simp add: Finish_typeW Finish_codeW Finish_str_line_def CompileResult_String_def
      Global_Operand_def Finish_data_line_fun)

theorem Finish_writes_in_order_witness:
  "CompileResult_String (r (Finish spec_types
     (snd (DeclareGlobal False ''bar'' TypeI32
       (snd (String ''hi''
         (snd (CompositeType [CompositeEntry ''w'' 2, CompositeEntry ''l'' 1]
           (Insn 0 (CHR 0x00) ''ret'' [] NewCompiler)))))))))
   = ''type :w2l = { w 2, l }'' @ NL
     @ TAB @ ''ret'' @ NL
     @ ''data $str0 = { b '' @ DQUOTE @ ''hi'' @ DQUOTE @ '', b 0 }'' @ NL
     @ ''data $bar = align 4 { z 4 }'' @ NL"
  using Finish_writes_in_order [of spec_types
     "snd (DeclareGlobal False ''bar'' TypeI32
       (snd (String ''hi''
         (snd (CompositeType [CompositeEntry ''w'' 2, CompositeEntry ''l'' 1]
           (Insn 0 (CHR 0x00) ''ret'' [] NewCompiler))))))" "''bar''"]
  by (simp add: emit_defs pool_defs str_defs NS_def DeclareGlobal_def Let_def Utoa_digit
      GenType_entries.simps spec_types_def spec_Metrics_def spec_letter_def spec_Concrete_def)

subsection \<open>Global variables\<close>

lemma DeclareGlobal_ok:
  "NS c = Inr cur \<Longrightarrow> store c (Vars cur) name = None \<Longrightarrow>
   DeclareGlobal extern name ty c
     = (Inr (), c\<lparr>store := (store c)(Vars cur := (store c (Vars cur))(name \<mapsto> ty)),
                   data := (if extern then data c
                            else data c @ [\<lparr>Loc = OGlobal (Name cur @ name), Ty = ty\<rparr>])\<rparr>)"
  by (simp add: DeclareGlobal_def Let_def)

lemma DeclareGlobal_dup:
  "NS c = Inr cur \<Longrightarrow> store c (Vars cur) name \<noteq> None \<Longrightarrow>
   DeclareGlobal extern name ty c = (Inl (PanicString ''Variable already exists''), c)"
  by (auto simp add: DeclareGlobal_def Let_def)

text \<open>
  C10: in a compiler with a current namespace, \<^verbatim>\<open>DeclareGlobal\<close> panics with
  \<^verbatim>\<open>Variable already exists\<close> and changes nothing when the name is bound in the
  current namespace, whether the global is extern or not. Otherwise it binds the name
  to the type in the current namespace, whether the global is extern or not, and it
  appends a pending data entry for \<^verbatim>\<open>$<prefix><name>\<close> only when the global is not
  extern. So \<^verbatim>\<open>Finish\<close> writes, after what it wrote without the declaration, the line
  \<^verbatim>\<open>data $<prefix><name> = align A { z S }\<close> for a global that is not extern and nothing
  for an extern one.
\<close>

theorem DeclareGlobal_extern:
  "NS c = Inr cur \<Longrightarrow>
   (if store c (Vars cur) name \<noteq> None
    then DeclareGlobal extern name ty c = (Inl (PanicString ''Variable already exists''), c)
    else (let c1 = snd (DeclareGlobal extern name ty c) in
            fst (DeclareGlobal extern name ty c) = Inr ()
          \<and> store c1 (Vars cur) name = Some ty
          \<and> store c1 = (store c)(Vars cur := (store c (Vars cur))(name \<mapsto> ty))
          \<and> c1 = c\<lparr>store := store c1, data := data c1\<rparr>
          \<and> data c1 = (if extern then data c
                       else data c @ [\<lparr>Loc = OGlobal (Name cur @ name), Ty = ty\<rparr>])
          \<and> codeW (r (Finish T c1))
              = codeW (r (Finish T c))
                @ (if extern then ''''
                   else ''data $'' @ Name cur @ name
                        @ '' = align '' @ Itoa (Align (Metrics T (Concrete T ty)))
                        @ '' { z '' @ Itoa (Size (Metrics T (Concrete T ty))) @ '' }'' @ NL)))"
proof (cases "store c (Vars cur) name")
  case None
  assume ns: "NS c = Inr cur"
  note ok = DeclareGlobal_ok[OF ns None]
  show ?thesis
    using None 
    by (simp add: ok Let_def Finish_codeW Finish_data_line_def Global_Operand_def)
next
  case (Some a)
  assume ns: "NS c = Inr cur"
  from Some have "store c (Vars cur) name \<noteq> None" by simp
  from DeclareGlobal_dup[OF ns this] Some show ?thesis by simp
qed

theorem DeclareGlobal_extern_witness:
  "NS (snd (DeclareGlobal True ''foo'' TypeI32 NewCompiler)) = Inr \<lparr>Name = '''', Vars = 0\<rparr>
   \<and> DeclareGlobal True ''foo'' TypeI32 (snd (DeclareGlobal True ''foo'' TypeI32 NewCompiler))
       = (Inl (PanicString ''Variable already exists''), snd (DeclareGlobal True ''foo'' TypeI32 NewCompiler))
   \<and> data (snd (DeclareGlobal True ''foo'' TypeI32 NewCompiler)) = []
   \<and> fst (DeclareGlobal False ''bar'' TypeI32 (snd (DeclareGlobal True ''foo'' TypeI32 NewCompiler))) = Inr ()
   \<and> codeW (r (Finish spec_types (snd (DeclareGlobal False ''bar'' TypeI32
        (snd (DeclareGlobal True ''foo'' TypeI32 NewCompiler))))))
      = ''data $bar = align 4 { z 4 }'' @ NL"
proof -
  let ?c = "snd (DeclareGlobal True ''foo'' TypeI32 NewCompiler)"
  have h: "NS ?c = Inr \<lparr>Name = '''', Vars = 0\<rparr>"
    by (simp add: NS_def DeclareGlobal_def NewCompiler_def)
  from DeclareGlobal_extern [OF h, of "''foo''" True TypeI32 spec_types]
       DeclareGlobal_extern [OF h, of "''bar''" False TypeI32 spec_types]
  show ?thesis
    by (simp add: h NS_def DeclareGlobal_def NewCompiler_def Let_def Finish_codeW
        spec_types_def spec_Metrics_def spec_letter_def spec_Concrete_def Itoa_def Utoa_digit digit_def)
qed

subsection \<open>Looking a variable up\<close>

lemmas ns_defs = NS_def DeclareGlobal_def StartNamespace_def EndNamespace_def
lemmas fun_defs = StartFunction_def Temporary_def uint_incr_def allocLocal_def
  StartFunction_header_def IRInt_def Itoa_def
lemmas spec_types_defs = spec_types_def spec_letter_def spec_base_def spec_Metrics_def
  spec_Concrete_def spec_IsConcrete_def spec_numeric_def spec_float_def spec_GenZero_def

lemma nsVar_last:
  "ns c \<noteq> [] \<Longrightarrow>
   nsVar (int (length (ns c)) - 1) name c
     = Inr (case store c (Vars (last (ns c))) name of
              Some ty \<Rightarrow> Some \<lparr>Loc = OGlobal (Name (last (ns c)) @ name), Ty = ty\<rparr>
            | None \<Rightarrow> None)"
  by (cases "ns c" rule: rev_cases) (auto simp: nsVar_def Let_def nat_diff_distrib split: option.splits)

lemma nsVar_hd:
  "ns c \<noteq> [] \<Longrightarrow>
   nsVar 0 name c
     = Inr (case store c (Vars (hd (ns c))) name of
              Some ty \<Rightarrow> Some \<lparr>Loc = OGlobal (Name (hd (ns c)) @ name), Ty = ty\<rparr>
            | None \<Rightarrow> None)"
  by (cases "ns c") (auto simp: nsVar_def Let_def split: option.splits)

text \<open>
  C7: where the namespace stack is not empty, \<^verbatim>\<open>Variable(name)\<close> returns the binding
  of the name in the table of locals if there is one (the storage temporary and the
  type stored there); else the global \<^verbatim>\<open>$<prefix><name>\<close> with the type the current
  (innermost) namespace binds the name to, if it binds it; else the global
  \<^verbatim>\<open>$<prefix><name>\<close> of the root namespace, if that binds the name; and if none of
  the three tables has the name it panics with \<^verbatim>\<open>Undefined variable: <name>\<close>.
\<close>

theorem Variable_lookup_order:
  "ns c \<noteq> [] \<Longrightarrow>
     (vars c name = Some v \<longrightarrow> Variable name c = Inr v)
   \<and> (vars c name = None \<and> store c (Vars (last (ns c))) name = Some ty
        \<longrightarrow> Variable name c = Inr \<lparr>Loc = OGlobal (Name (last (ns c)) @ name), Ty = ty\<rparr>
          \<and> Operand_Operand (OGlobal (Name (last (ns c)) @ name)) = ''$'' @ Name (last (ns c)) @ name)
   \<and> (vars c name = None \<and> store c (Vars (last (ns c))) name = None
        \<and> store c (Vars (hd (ns c))) name = Some ty
        \<longrightarrow> Variable name c = Inr \<lparr>Loc = OGlobal (Name (hd (ns c)) @ name), Ty = ty\<rparr>)
   \<and> (vars c name = None \<and> store c (Vars (last (ns c))) name = None
        \<and> store c (Vars (hd (ns c))) name = None
        \<longrightarrow> Variable name c = Inl (PanicString (''Undefined variable: '' @ name)))"
  by (simp add: Variable_def nsVar_last nsVar_hd Global_Operand_def)

text \<open>
  A global \<^verbatim>\<open>foo\<close>, then in the namespace \<^verbatim>\<open>n\<close> an extern global \<^verbatim>\<open>x\<close> and a
  function with the parameter \<^verbatim>\<open>a\<close>.
\<close>

theorem Variable_lookup_order_witness:
  "ns (snd (StartFunction spec_types False ''f'' [IRParam ''a'' TypeI8] ''''
            (snd (DeclareGlobal True ''x'' TypeI64
              (snd (StartNamespace ''n''
                (snd (DeclareGlobal False ''foo'' TypeI32 NewCompiler)))))))) \<noteq> []
   \<and> Variable ''a'' (snd (StartFunction spec_types False ''f'' [IRParam ''a'' TypeI8] ''''
            (snd (DeclareGlobal True ''x'' TypeI64
              (snd (StartNamespace ''n''
                (snd (DeclareGlobal False ''foo'' TypeI32 NewCompiler))))))))
       = Inr \<lparr>Loc = OTemporary 2, Ty = TypeI8\<rparr>
   \<and> Variable ''x'' (snd (StartFunction spec_types False ''f'' [IRParam ''a'' TypeI8] ''''
            (snd (DeclareGlobal True ''x'' TypeI64
              (snd (StartNamespace ''n''
                (snd (DeclareGlobal False ''foo'' TypeI32 NewCompiler))))))))
       = Inr \<lparr>Loc = OGlobal ''n.x'', Ty = TypeI64\<rparr>
   \<and> Variable ''foo'' (snd (StartFunction spec_types False ''f'' [IRParam ''a'' TypeI8] ''''
            (snd (DeclareGlobal True ''x'' TypeI64
              (snd (StartNamespace ''n''
                (snd (DeclareGlobal False ''foo'' TypeI32 NewCompiler))))))))
       = Inr \<lparr>Loc = OGlobal ''foo'', Ty = TypeI32\<rparr>
   \<and> Variable ''nope'' (snd (StartFunction spec_types False ''f'' [IRParam ''a'' TypeI8] ''''
            (snd (DeclareGlobal True ''x'' TypeI64
              (snd (StartNamespace ''n''
                (snd (DeclareGlobal False ''foo'' TypeI32 NewCompiler))))))))
       = Inl (PanicString ''Undefined variable: nope'')"
proof -
  let ?c = "snd (StartFunction spec_types False ''f'' [IRParam ''a'' TypeI8] ''''
            (snd (DeclareGlobal True ''x'' TypeI64
              (snd (StartNamespace ''n''
                (snd (DeclareGlobal False ''foo'' TypeI32 NewCompiler)))))))"
  have c: "?c = NewCompiler\<lparr>
      r := \<lparr>typeW = '''', codeW = ''function $n.f(w %t1) {'' @ NL @ ''@start'' @ NL
             @ TAB @ ''%t2 =l alloc4 1'' @ NL @ TAB @ ''storeb %t1, %t2'' @ NL\<rparr>,
      temp := 2,
      ns := [\<lparr>Name = '''', Vars = 0\<rparr>, \<lparr>Name = ''n.'', Vars = 1\<rparr>],
      vars := [''a'' \<mapsto> \<lparr>Loc = OTemporary (Suc (Suc 0)), Ty = TypeI8\<rparr>],
      data := [\<lparr>Loc = OGlobal ''foo'', Ty = TypeI32\<rparr>],
      store := (\<lambda>_. Map.empty)
         (0 := [''foo'' \<mapsto> TypeI32, ''n'' \<mapsto> NamespaceType \<lparr>Name = ''n.'', Vars = 1\<rparr>],
          1 := [''x'' \<mapsto> TypeI64]),
      store_next := 2\<rparr>"
    by (simp add: ns_defs fun_defs spec_types_defs emit_defs Let_def Utoa_digit fun_upd_twist)
  have h: "ns ?c \<noteq> []" unfolding c by (simp add: NewCompiler_def)
  from Variable_lookup_order [OF h, of "''a''" "\<lparr>Loc = OTemporary 2, Ty = TypeI8\<rparr>" TypeI8]
       Variable_lookup_order [OF h, of "''x''" "\<lparr>Loc = OTemporary 2, Ty = TypeI8\<rparr>" TypeI64]
       Variable_lookup_order [OF h, of "''foo''" "\<lparr>Loc = OTemporary 2, Ty = TypeI8\<rparr>" TypeI32]
       Variable_lookup_order [OF h, of "''nope''" "\<lparr>Loc = OTemporary 2, Ty = TypeI8\<rparr>" TypeI32]
  show ?thesis
    unfolding c by (simp add: NewCompiler_def)
qed

subsection \<open>Small parameter types are promoted to words\<close>

lemma join_with_Cons:
  "join_with sep (x # xs) = x @ (if xs = [] then '''' else sep @ join_with sep xs)"
  by (cases xs) auto

lemma CallOperand_arg_promoted:
  "CallOperand_arg a = (case a of TypedOperand ty op \<Rightarrow> promoted ty @ '' '' @ Operand_Operand op)"
  by (cases a) (auto simp: promoted_def)

lemma CallOperand_args_join:
  "CallOperand_args i args
     = (if args = [] then ''''
        else (if i > 0 then '', '' else '''') @ join_with '', '' (map CallOperand_arg args))"
  by (induction args arbitrary: i) (auto simp: join_with_Cons)

lemma StartFunction_raw_Nil: "fst (StartFunction_raw T params c) = [] \<longleftrightarrow> params = []"
  by (cases params) (auto simp: Let_def split: prod.splits)

lemma StartFunction_params_join:
  "StartFunction_params T i params pbuild ptemps c
     = (pbuild @ (if params = [] then ''''
                  else (if i > 0 then '', '' else '''')
                       @ join_with '', '' (map (\<lambda>(l, t). promoted l @ '' '' @ Temporary_Operand t)
                                             (fst (StartFunction_raw T params c)))),
        ptemps @ map snd (fst (StartFunction_raw T params c)),
        snd (StartFunction_raw T params c))"
proof (induction params arbitrary: i pbuild ptemps c)
  case Nil
  then show ?case by simp
next
  case (Cons p ps)
  obtain ptype c1 where ty: "IRTypeName T (ParamTy p) c = (ptype, c1)"
    by (cases "IRTypeName T (ParamTy p) c")
  obtain t c2 where tm: "Temporary c1 = (t, c2)" by (cases "Temporary c1")
  obtain rest c3 where rw: "StartFunction_raw T ps c2 = (rest, c3)"
    by (cases "StartFunction_raw T ps c2")
  have rest: "rest = [] \<longleftrightarrow> ps = []"
    using StartFunction_raw_Nil[of T ps c2] rw by simp
  show ?case
    by (simp add: ty tm rw Let_def Cons.IH join_with_Cons promoted_def rest)
qed

text \<open>
  C3: where the compiler has a current namespace after the first loop,
  \<^verbatim>\<open>StartFunction\<close> writes the header and then runs its second loop, and the header is
  the text \<^verbatim>\<open>[export ]function [<ret> ]$<prefix><name>(<ty> %tN, ...) {\<close> with the line
  \<^verbatim>\<open>@start\<close>, where every \<^verbatim>\<open><ty>\<close> is the promoted type name that the type of the
  parameter reports and \<^verbatim>\<open><ret>\<close> is the promoted return type.
  \<^verbatim>\<open>CallOperand.Operand\<close> is the callee, and in parentheses the arguments, each with its
  promoted type, and \<^verbatim>\<open>, ...\<close> for a variadic call. Promotion turns \<^verbatim>\<open>b\<close> and \<^verbatim>\<open>h\<close>
  into \<^verbatim>\<open>w\<close> and keeps every other type text.
\<close>

theorem StartFunction_promotes:
  "NS (snd (StartFunction_raw T params c)) = Inr cur \<Longrightarrow>
     StartFunction T export name params retType c
       = StartFunction_locals T (zip params (map snd (fst (StartFunction_raw T params c))))
           (Writef ((if export then ''export '' else '''') @ ''function ''
                    @ (if retType = '''' then '''' else promoted retType @ '' '')
                    @ ''$'' @ Name cur @ name @ ''(''
                    @ join_with '', '' (map (\<lambda>(l, t). promoted l @ '' '' @ Temporary_Operand t)
                                          (fst (StartFunction_raw T params c)))
                    @ '') {'' @ NL @ ''@start'' @ NL)
              (snd (StartFunction_raw T params c)))
   \<and> Operand_Operand (OCall var func args)
       = Operand_Operand func @ ''(''
         @ join_with '', '' (map (\<lambda>a. case a of TypedOperand ty op \<Rightarrow>
                                        promoted ty @ '' '' @ Operand_Operand op) args)
         @ (if var then '', ...'' else '''') @ '')''
   \<and> promoted ''b'' = ''w'' \<and> promoted ''h'' = ''w''
   \<and> (ty \<noteq> ''b'' \<and> ty \<noteq> ''h'' \<longrightarrow> promoted ty = ty)"
proof -
  assume ns: "NS (snd (StartFunction_raw T params c)) = Inr cur"
  have a: "StartFunction T export name params retType c
       = StartFunction_locals T (zip params (map snd (fst (StartFunction_raw T params c))))
           (Writef ((if export then ''export '' else '''') @ ''function ''
                    @ (if retType = '''' then '''' else promoted retType @ '' '')
                    @ ''$'' @ Name cur @ name @ ''(''
                    @ join_with '', '' (map (\<lambda>(l, t). promoted l @ '' '' @ Temporary_Operand t)
                                          (fst (StartFunction_raw T params c)))
                    @ '') {'' @ NL @ ''@start'' @ NL)
              (snd (StartFunction_raw T params c)))"
    unfolding StartFunction_def StartFunction_params_join
    by (simp add: ns StartFunction_header_def Let_def promoted_def)
  have b: "Operand_Operand (OCall var func args)
       = Operand_Operand func @ ''(''
         @ join_with '', '' (map (\<lambda>a. case a of TypedOperand ty op \<Rightarrow>
                                        promoted ty @ '' '' @ Operand_Operand op) args)
         @ (if var then '', ...'' else '''') @ '')''"
  proof -
    have "CallOperand_arg = (\<lambda>a. case a of TypedOperand ty op \<Rightarrow>
                                        promoted ty @ '' '' @ Operand_Operand op)"
      by (rule ext) (rule CallOperand_arg_promoted)
    then show ?thesis by (simp add: CallOperand_args_join)
  qed
  have d1: "promoted ''b'' = ''w''" and d2: "promoted ''h'' = ''w''"
    and d3: "ty \<noteq> ''b'' \<and> ty \<noteq> ''h'' \<longrightarrow> promoted ty = ty"
    by (simp_all add: promoted_def)
  from a b d1 d2 d3 show ?thesis by (intro conjI)
qed

theorem StartFunction_promotes_witness:
  "NS (snd (StartFunction_raw spec_types
         [IRParam ''a'' TypeI8, IRParam ''c'' TypeU64] NewCompiler))
     = Inr \<lparr>Name = '''', Vars = 0\<rparr>
   \<and> codeW (r (snd (StartFunction spec_types True ''foo''
         [IRParam ''a'' TypeI8, IRParam ''c'' TypeU64] ''h'' NewCompiler)))
     = ''export function w $foo(w %t1, l %t2) {'' @ NL @ ''@start'' @ NL
       @ TAB @ ''%t3 =l alloc4 1'' @ NL @ TAB @ ''storeb %t1, %t3'' @ NL
       @ TAB @ ''%t4 =l alloc8 8'' @ NL @ TAB @ ''storel %t2, %t4'' @ NL
   \<and> Operand_Operand (OCall True (OGlobal ''foo'')
         [TypedOperand ''b'' (OIRInteger ''1''), TypedOperand ''h'' (OTemporary 2),
          TypedOperand '':w2l'' (OTemporary 3), TypedOperand ''l'' (OIRInteger ''2'')])
     = ''$foo(w 1, w %t2, :w2l %t3, l 2, ...)''"
proof -
  have h: "NS (snd (StartFunction_raw spec_types
         [IRParam ''a'' TypeI8, IRParam ''c'' TypeU64] NewCompiler))
     = Inr \<lparr>Name = '''', Vars = 0\<rparr>"
    by (simp add: NS_def spec_types_defs Temporary_def NewCompiler_def Let_def)
  have raw: "StartFunction_raw spec_types [IRParam ''a'' TypeI8, IRParam ''c'' TypeU64] NewCompiler
     = ([(''b'', 1), (''l'', 2)], NewCompiler\<lparr>temp := 2\<rparr>)"
    by (simp add: spec_types_defs Temporary_def uint_incr_def NewCompiler_def Let_def)
  have loc: "codeW (r (snd (StartFunction_locals spec_types
       (zip [IRParam ''a'' TypeI8, IRParam ''c'' TypeU64] [1, 2])
       (Writef (''export function w $foo(w %t1, l %t2) {'' @ NL @ ''@start'' @ NL)
          (NewCompiler\<lparr>temp := 2\<rparr>)))))
     = ''export function w $foo(w %t1, l %t2) {'' @ NL @ ''@start'' @ NL
       @ TAB @ ''%t3 =l alloc4 1'' @ NL @ TAB @ ''storeb %t1, %t3'' @ NL
       @ TAB @ ''%t4 =l alloc8 8'' @ NL @ TAB @ ''storel %t2, %t4'' @ NL"
    by (simp add: fun_defs spec_types_defs emit_defs Let_def Utoa_digit)
  have f: "Operand_Operand (OCall True (OGlobal ''foo'')
         [TypedOperand ''b'' (OIRInteger ''1''), TypedOperand ''h'' (OTemporary 2),
          TypedOperand '':w2l'' (OTemporary 3), TypedOperand ''l'' (OIRInteger ''2'')])
     = ''$foo(w 1, w %t2, :w2l %t3, l 2, ...)''"
    by (simp add: emit_defs Utoa_digit)
  have hdr: "(if True then ''export '' else '''') @ ''function ''
                    @ (if ''h'' = '''' then '''' else promoted ''h'' @ '' '')
                    @ ''$'' @ Name \<lparr>Name = '''', Vars = 0\<rparr> @ ''foo'' @ ''(''
                    @ join_with '', '' (map (\<lambda>(l, t). promoted l @ '' '' @ Temporary_Operand t)
                                          [(''b'', 1), (''l'', 2)])
                    @ '') {'' @ NL @ ''@start'' @ NL
     = ''export function w $foo(w %t1, l %t2) {'' @ NL @ ''@start'' @ NL"
    by (simp add: promoted_def emit_defs Utoa_digit)
  from StartFunction_promotes [OF h, of True "''foo''" "''h''"]
  have "StartFunction spec_types True ''foo'' [IRParam ''a'' TypeI8, IRParam ''c'' TypeU64] ''h'' NewCompiler
     = StartFunction_locals spec_types
       (zip [IRParam ''a'' TypeI8, IRParam ''c'' TypeU64] [1, 2])
       (Writef (''export function w $foo(w %t1, l %t2) {'' @ NL @ ''@start'' @ NL)
          (NewCompiler\<lparr>temp := 2\<rparr>))"
    unfolding raw fst_conv snd_conv hdr by simp
  with loc have e: "codeW (r (snd (StartFunction spec_types True ''foo''
         [IRParam ''a'' TypeI8, IRParam ''c'' TypeU64] ''h'' NewCompiler)))
     = ''export function w $foo(w %t1, l %t2) {'' @ NL @ ''@start'' @ NL
       @ TAB @ ''%t3 =l alloc4 1'' @ NL @ TAB @ ''storeb %t1, %t3'' @ NL
       @ TAB @ ''%t4 =l alloc8 8'' @ NL @ TAB @ ''storel %t2, %t4'' @ NL"
    by simp
  from h e f show ?thesis by (intro conjI)
qed

subsection \<open>The type of a binary expression\<close>

lemmas prog_defs = seq_def typecheck_def prog_empty_def prog_var_x_twice_def
  prog_call_pointer_def prog_undefined_variable_def DeclareLocal_def Variable_def nsVar_def

lemma Variable_global:
  "Variable ''i'' (snd (DeclareGlobal False ''i'' ty NewCompiler))
     = Inr \<lparr>Loc = OGlobal ''i'', Ty = ty\<rparr>"
  by (simp add: Variable_def nsVar_def ns_defs NewCompiler_def Let_def)

text \<open>
  C8, as the spec states it, fails in two ways. Operands of one struct type are
  compatible, and \<^verbatim>\<open>TypeOf\<close> fails all the same: the type it selects must be numeric.
  And for two literals there is no side that is not a literal: \<^verbatim>\<open>TypeOf\<close> yields the
  concrete form of the left literal type, which is the type of neither operand.
\<close>

theorem BinaryExpr_TypeOf_counterexample:
  "Compatible spec_types (Some (StructType [(''x'', TypeI32)])) (Some (StructType [(''x'', TypeI32)]))
   \<and> TypeOf spec_types (snd (DeclareGlobal False ''i'' (StructType [(''x'', TypeI32)]) NewCompiler))
        (VarExpr ''i'')
     = Inr (Some (StructType [(''x'', TypeI32)]))
   \<and> TypeOf spec_types (snd (DeclareGlobal False ''i'' (StructType [(''x'', TypeI32)]) NewCompiler))
        (BinaryExpr (VarExpr ''i'') ''+'' (VarExpr ''i''))
     = Inl (PanicString ''Operand of binary expression is of non-numeric type'')
   \<and> Compatible spec_types (Some IntLitType) (Some IntLitType)
   \<and> TypeOf spec_types NewCompiler (BinaryExpr (IntegerExpr ''4'') ''+'' (IntegerExpr ''2''))
     = Inr (Some TypeI64)"
  by (simp add: Variable_global spec_types_defs Let_def)

text \<open>
  C8, amended: for a binary expression whose operands have the types \<open>lt\<close> and \<open>rt\<close>,
  \<^verbatim>\<open>TypeOf\<close> fails with \<^verbatim>\<open>Operands of binary expression are incompatible\<close> when the two
  are incompatible. Otherwise it selects the concrete form of the right operand's type
  when the left operand's type is not concrete and the right one's is, and the concrete
  form of the left operand's type in every other case (both concrete, or neither); it
  yields the selected type when that is numeric, and fails with
  \<^verbatim>\<open>Operand of binary expression is of non-numeric type\<close> when it is not.
\<close>

theorem BinaryExpr_TypeOf_numeric:
  "TypeOf T c L = Inr (Some lt) \<Longrightarrow> TypeOf T c R = Inr (Some rt) \<Longrightarrow>
   TypeOf T c (BinaryExpr L op R)
     = (if \<not> Compatible T (Some lt) (Some rt)
        then Inl (PanicString ''Operands of binary expression are incompatible'')
        else if isNumericType T (if \<not> IsConcrete T lt \<and> IsConcrete T rt
                                 then Concrete T rt else Concrete T lt)
        then Inr (Some (if \<not> IsConcrete T lt \<and> IsConcrete T rt
                        then Concrete T rt else Concrete T lt))
        else Inl (PanicString ''Operand of binary expression is of non-numeric type''))"
  by (simp add: Let_def)

theorem BinaryExpr_TypeOf_numeric_witness:
  "TypeOf spec_types (snd (DeclareGlobal False ''i'' TypeI32 NewCompiler)) (IntegerExpr ''1'')
     = Inr (Some IntLitType)
   \<and> TypeOf spec_types (snd (DeclareGlobal False ''i'' TypeI32 NewCompiler)) (VarExpr ''i'')
     = Inr (Some TypeI32)
   \<and> TypeOf spec_types (snd (DeclareGlobal False ''i'' TypeI32 NewCompiler))
        (BinaryExpr (IntegerExpr ''1'') ''+'' (VarExpr ''i''))
     = Inr (Some TypeI32)
   \<and> TypeOf spec_types (snd (DeclareGlobal False ''i'' TypeI32 NewCompiler))
        (BinaryExpr (VarExpr ''i'') ''+'' (IntegerExpr ''1''))
     = Inr (Some TypeI32)
   \<and> TypeOf spec_types (snd (DeclareGlobal False ''i'' TypeI32 NewCompiler))
        (BinaryExpr (VarExpr ''i'') ''+'' (StringExpr ''s''))
     = Inl (PanicString ''Operands of binary expression are incompatible'')"
proof -
  let ?c = "snd (DeclareGlobal False ''i'' TypeI32 NewCompiler)"
  have l: "TypeOf spec_types ?c (IntegerExpr ''1'') = Inr (Some IntLitType)" by simp
  have v: "TypeOf spec_types ?c (VarExpr ''i'') = Inr (Some TypeI32)"
    by (simp add: Variable_global)
  have s: "TypeOf spec_types ?c (StringExpr ''s'') = Inr (Some (PointerType (Some TypeI8)))"
    by simp
  from BinaryExpr_TypeOf_numeric [OF l v, of "''+''"]
       BinaryExpr_TypeOf_numeric [OF v l, of "''+''"]
       BinaryExpr_TypeOf_numeric [OF v s, of "''+''"] l v
  show ?thesis
    by (simp add: spec_types_defs)
qed

subsection \<open>Panics that \<^verbatim>\<open>Compile\<close> recovers\<close>

lemma compile_panic: "prog c = (Inl p, c1) \<Longrightarrow> compile T prog c = (Inl p, c1)"
  by (simp add: compile_def)

lemma compile_return: "prog c = (Inr u, c1) \<Longrightarrow> compile T prog c = (Inr (), Finish T c1)"
  by (simp add: compile_def)

text \<open>
  C9: \<^verbatim>\<open>Compile\<close> returns an error exactly when the lowering panics with a string, and
  the error is that string, with no result; when the lowering panics with another value,
  \<^verbatim>\<open>Compile\<close> panics with that value and returns nothing; when the lowering returns,
  \<^verbatim>\<open>Compile\<close> returns the finished buffers and no error. In particular, where the
  callee of a call expression has the type of a pointer to something that is not a
  function type, \<^verbatim>\<open>CallExpr.typeOf\<close> and \<^verbatim>\<open>CallExpr.TypeOf\<close> panic with the value of
  the failed type assertion, which is not a string, and a \<^verbatim>\<open>Compile\<close> whose lowering
  types that expression panics with it.
\<close>

theorem Compile_recovers_strings_only:
  "(prog c = (Inl (PanicString e), c1) \<longrightarrow> Compile T prog c = (Returns None (Some e), c1))
   \<and> (prog c = (Inl (PanicRuntime v), c1) \<longrightarrow> Compile T prog c = (Panics (PanicRuntime v), c1))
   \<and> (prog c = (Inr (), c1) \<longrightarrow>
        Compile T prog c
          = (Returns (Some (r (Finish T c1))) None, (Finish T c1)\<lparr>r := \<lparr>typeW = '''', codeW = ''''\<rparr>\<rparr>))
   \<and> ((\<exists>res. fst (Compile T prog c) = Returns res (Some e))
        \<longleftrightarrow> fst (prog c) = Inl (PanicString e))
   \<and> (fst (Compile T prog c) = Panics (PanicRuntime v) \<longleftrightarrow> fst (prog c) = Inl (PanicRuntime v))
   \<and> (TypeOf T c callee = Inr (Some (PointerType to)) \<and> (\<forall>ps res. to \<noteq> Some (FuncType ps res))
        \<longrightarrow> CallExpr_typeOf T c callee
              = Inl (PanicRuntime ''interface conversion: Type is not FuncType'')
          \<and> TypeOf T c (CallExpr callee args)
              = Inl (PanicRuntime ''interface conversion: Type is not FuncType'')
          \<and> Compile T (typecheck T (CallExpr callee args)) c
              = (Panics (PanicRuntime ''interface conversion: Type is not FuncType''), c))"
proof -
  have a: "prog c = (Inl (PanicString e), c1) \<longrightarrow> Compile T prog c = (Returns None (Some e), c1)"
    by (simp add: Compile_def compile_def)
  have b: "prog c = (Inl (PanicRuntime v), c1) \<longrightarrow> Compile T prog c = (Panics (PanicRuntime v), c1)"
    by (simp add: Compile_def compile_def)
  have d: "prog c = (Inr (), c1) \<longrightarrow>
        Compile T prog c
          = (Returns (Some (r (Finish T c1))) None, (Finish T c1)\<lparr>r := \<lparr>typeW = '''', codeW = ''''\<rparr>\<rparr>)"
    by (simp add: Compile_def compile_def)
  have f: "(\<exists>res. fst (Compile T prog c) = Returns res (Some e))
        \<longleftrightarrow> fst (prog c) = Inl (PanicString e)"
    by (cases "prog c") (auto simp: Compile_def compile_def split: sum.splits panic.splits)
  have g: "fst (Compile T prog c) = Panics (PanicRuntime v) \<longleftrightarrow> fst (prog c) = Inl (PanicRuntime v)"
    by (cases "prog c") (auto simp: Compile_def compile_def split: sum.splits panic.splits)
  have h: "TypeOf T c callee = Inr (Some (PointerType to)) \<and> (\<forall>ps res. to \<noteq> Some (FuncType ps res))
        \<longrightarrow> CallExpr_typeOf T c callee
              = Inl (PanicRuntime ''interface conversion: Type is not FuncType'')
          \<and> TypeOf T c (CallExpr callee args)
              = Inl (PanicRuntime ''interface conversion: Type is not FuncType'')
          \<and> Compile T (typecheck T (CallExpr callee args)) c
              = (Panics (PanicRuntime ''interface conversion: Type is not FuncType''), c)"
    by (auto simp: CallExpr_typeOf_def CallExpr_typeOf_switch_def Compile_def compile_def
        typecheck_def split: option.splits Type.splits)
  from a b d f g h show ?thesis by (intro conjI)
qed

theorem Compile_recovers_strings_only_witness:
  "fst (prog_call_pointer spec_types NewCompiler)
     = Inl (PanicRuntime ''interface conversion: Type is not FuncType'')
   \<and> fst (Compile spec_types (prog_call_pointer spec_types) NewCompiler)
     = Panics (PanicRuntime ''interface conversion: Type is not FuncType'')
   \<and> fst (prog_var_x_twice NewCompiler) = Inl (PanicString ''Variable already exists'')
   \<and> fst (Compile spec_types prog_var_x_twice NewCompiler)
     = Returns None (Some ''Variable already exists'')"
proof -
  have p: "fst (prog_call_pointer spec_types NewCompiler)
     = Inl (PanicRuntime ''interface conversion: Type is not FuncType'')"
    by (simp add: prog_defs ns_defs fun_defs spec_types_defs emit_defs
        CallExpr_typeOf_switch_def Let_def Utoa_digit)
  have q: "fst (prog_var_x_twice NewCompiler) = Inl (PanicString ''Variable already exists'')"
    by (simp add: prog_defs ns_defs NewCompiler_def Let_def)
  obtain c1 where q1: "prog_var_x_twice NewCompiler = (Inl (PanicString ''Variable already exists''), c1)"
    using q by (cases "prog_var_x_twice NewCompiler") simp
  from Compile_recovers_strings_only
         [of "prog_call_pointer spec_types" NewCompiler _ _ spec_types
             "''interface conversion: Type is not FuncType''"] p
  have a: "fst (Compile spec_types (prog_call_pointer spec_types) NewCompiler)
     = Panics (PanicRuntime ''interface conversion: Type is not FuncType'')"
    by blast
  from Compile_recovers_strings_only
         [of prog_var_x_twice NewCompiler "''Variable already exists''" c1 spec_types] q1
  have b: "fst (Compile spec_types prog_var_x_twice NewCompiler)
     = Returns None (Some ''Variable already exists'')"
    by simp
  from p a q b show ?thesis by (intro conjI)
qed

subsection \<open>A failed translation\<close>

text \<open>
  C1, as the spec states it, fails: \<^verbatim>\<open>Compile\<close> resets nothing when the lowering fails.
  After the failed translation of \<^verbatim>\<open>var x I32\<close> declared twice, the pending data entry
  for \<^verbatim>\<open>x\<close> is still there, and compiling the empty program on the same compiler
  writes a definition of \<^verbatim>\<open>$x\<close>, which it does not on a new compiler.
\<close>

theorem Compile_failure_counterexample:
  "fst (Compile spec_types prog_var_x_twice NewCompiler)
     = Returns None (Some ''Variable already exists'')
   \<and> data (snd (Compile spec_types prog_var_x_twice NewCompiler))
     = [\<lparr>Loc = OGlobal ''x'', Ty = TypeI32\<rparr>]
   \<and> fst (Compile spec_types prog_empty (snd (Compile spec_types prog_var_x_twice NewCompiler)))
     = Returns (Some \<lparr>typeW = '''', codeW = ''data $x = align 4 { z 4 }'' @ NL\<rparr>) None
   \<and> fst (Compile spec_types prog_empty NewCompiler)
     = Returns (Some \<lparr>typeW = '''', codeW = ''''\<rparr>) None"
  by (simp add: Compile_def compile_def prog_defs ns_defs spec_types_defs emit_defs
      Finish_def Finish_data_line_def Itoa_def Let_def Utoa_digit)

text \<open>
  C1, amended: if the lowering panics with a string, \<^verbatim>\<open>Compile\<close> returns no result and
  that string as the one error, and it leaves the temporary and block counters, the
  table of locals, the string pool and its index, the pool of composite layouts, the
  pending global data and the namespaces as the lowering left them when it panicked:
  nothing is reset, and a later \<^verbatim>\<open>Compile\<close> on the same compiler starts from there.
\<close>

theorem Compile_failure_keeps_state:
  "prog c = (Inl (PanicString e), c1) \<Longrightarrow>
     fst (Compile T prog c) = Returns None (Some e)
   \<and> temp (snd (Compile T prog c)) = temp c1
   \<and> blk (snd (Compile T prog c)) = blk c1
   \<and> vars (snd (Compile T prog c)) = vars c1
   \<and> strs (snd (Compile T prog c)) = strs c1
   \<and> strM (snd (Compile T prog c)) = strM c1
   \<and> comps (snd (Compile T prog c)) = comps c1
   \<and> data (snd (Compile T prog c)) = data c1
   \<and> ns (snd (Compile T prog c)) = ns c1
   \<and> store (snd (Compile T prog c)) = store c1"
  by (simp add: Compile_def compile_def)

theorem Compile_failure_keeps_state_witness:
  "fst (prog_undefined_variable spec_types NewCompiler)
     = Inl (PanicString ''Undefined variable: nope'')
   \<and> fst (Compile spec_types (prog_undefined_variable spec_types) NewCompiler)
     = Returns None (Some ''Undefined variable: nope'')
   \<and> temp (snd (Compile spec_types (prog_undefined_variable spec_types) NewCompiler)) = 1
   \<and> vars (snd (Compile spec_types (prog_undefined_variable spec_types) NewCompiler)) ''a''
     = Some \<lparr>Loc = OTemporary 1, Ty = TypeI32\<rparr>
   \<and> strs (snd (Compile spec_types (prog_undefined_variable spec_types) NewCompiler)) = [''hi'']"
proof -
  obtain x c1 where p: "prog_undefined_variable spec_types NewCompiler = (x, c1)"
    by (cases "prog_undefined_variable spec_types NewCompiler")
  have e: "fst (prog_undefined_variable spec_types NewCompiler)
       = Inl (PanicString ''Undefined variable: nope'')
     \<and> temp (snd (prog_undefined_variable spec_types NewCompiler)) = 1
     \<and> vars (snd (prog_undefined_variable spec_types NewCompiler)) ''a''
         = Some \<lparr>Loc = OTemporary 1, Ty = TypeI32\<rparr>
     \<and> strs (snd (prog_undefined_variable spec_types NewCompiler)) = [''hi'']"
    by (simp add: prog_defs ns_defs fun_defs spec_types_defs emit_defs String_def
        Let_def Utoa_digit)
  with p have x: "x = Inl (PanicString ''Undefined variable: nope'')" by simp
  from Compile_failure_keeps_state
         [of "prog_undefined_variable spec_types" NewCompiler
             "''Undefined variable: nope''" c1 spec_types] e p x
  show ?thesis by simp
qed

end
